theory Spec2Isabelle
  imports Main "HOL-Library.Char_ord" "HOL-Library.List_Lexorder"
begin

section \<open>Python values used by the dashboard backend\<close>

text \<open>
  A Python \<open>str\<close> is modelled by the list of its UTF-8 bytes. Concatenation, equality,
  emptiness and the code-point order used by \<open>sorted\<close> agree with the same operations on
  the encoded bytes, and \<open>s.encode('utf-8')\<close> is the identity on this representation.
\<close>

definition digit_char :: "int \<Rightarrow> char" where
  "digit_char d = char_of (48 + d)"

function dec_digits :: "int \<Rightarrow> string" where
  "dec_digits n =
     (if n < 10 then [digit_char n] else dec_digits (n div 10) @ [digit_char (n mod 10)])"
  by pat_completeness auto
termination
  by (relation "measure nat") auto

declare dec_digits.simps [simp del]

text \<open>\<open>str(i)\<close>, which is also what \<open>f"{i}"\<close> inserts, for a Python \<open>int\<close>.\<close>

definition str_int :: "int \<Rightarrow> string" where
  "str_int i = (if i < 0 then CHR ''-'' # dec_digits (- i) else dec_digits i)"

text \<open>\<open>sep.join(parts)\<close>.\<close>

fun join :: "string \<Rightarrow> string list \<Rightarrow> string" where
  "join sep [] = []"
| "join sep [x] = x"
| "join sep (x # y # ys) = x @ sep @ join sep (y # ys)"

text \<open>
  Parsed JSON documents. Numbers are Python \<open>int\<close>s; JSON numbers with a fraction or an
  exponent (Python \<open>float\<close>s) are outside the model.
\<close>

datatype json =
    JNull
  | JBool bool
  | JNum int
  | JStr string
  | JArr "json list"
  | JObj "(string \<times> json) list"

text \<open>Python truthiness, as tested by \<open>if x:\<close> and \<open>not x\<close>.\<close>

fun truthy :: "json \<Rightarrow> bool" where
  "truthy JNull = False"
| "truthy (JBool b) = b"
| "truthy (JNum n) = (n \<noteq> 0)"
| "truthy (JStr s) = (s \<noteq> [])"
| "truthy (JArr xs) = (xs \<noteq> [])"
| "truthy (JObj fs) = (fs \<noteq> [])"

text \<open>
  A Python \<open>dict\<close> is an association list in insertion order whose keys are distinct.
  \<open>d.get(k, dflt)\<close>, \<open>d[k] = v\<close> (an existing key keeps its position), \<open>del d[k]\<close>,
  \<open>k in d\<close> and \<open>list(d.values())\<close>:
\<close>

definition dict_get :: "('k \<times> 'v) list \<Rightarrow> 'k \<Rightarrow> 'v \<Rightarrow> 'v" where
  "dict_get d k dflt = (case map_of d k of None \<Rightarrow> dflt | Some v \<Rightarrow> v)"

fun dict_setitem :: "'k \<Rightarrow> 'v \<Rightarrow> ('k \<times> 'v) list \<Rightarrow> ('k \<times> 'v) list" where
  "dict_setitem k v [] = [(k, v)]"
| "dict_setitem k v ((k', v') # d) =
     (if k' = k then (k', v) # d else (k', v') # dict_setitem k v d)"

definition dict_delitem :: "'k \<Rightarrow> ('k \<times> 'v) list \<Rightarrow> ('k \<times> 'v) list" where
  "dict_delitem k d = filter (\<lambda>kv. fst kv \<noteq> k) d"

definition dict_contains :: "'k \<Rightarrow> ('k \<times> 'v) list \<Rightarrow> bool" where
  "dict_contains k d = (map_of d k \<noteq> None)"

definition dict_values :: "('k \<times> 'v) list \<Rightarrow> 'v list" where
  "dict_values d = map snd d"

datatype py_error =
    AttributeError
  | TypeError
  | KeyError
  | UnicodeDecodeError string

section \<open>Configuration, clock and upstream\<close>

text \<open>The two module-level credentials read from the environment at import time.\<close>

record config =
  PIONEX_API_KEY :: string
  PIONEX_API_SECRET :: string

definition PIONEX_API_URL :: string where
  "PIONEX_API_URL = ''https://api.pionex.com''"

text \<open>
  \<open>hmac_hex key msg\<close> stands for the library call
  \<open>hmac.new(key.encode('utf-8'), msg.encode('utf-8'), hashlib.sha256).hexdigest()\<close>:
  the lower-case hexadecimal HMAC-SHA256 of the UTF-8 bytes of \<open>msg\<close> under the UTF-8
  bytes of \<open>key\<close>. The standard library is not part of the program, so the functions
  below take the keyed hash as a parameter \<open>H\<close>, and what is proved of them holds for
  every \<open>H\<close>, HMAC-SHA256 included.
\<close>

type_synonym hmac_hex = "string \<Rightarrow> string \<Rightarrow> string"

text \<open>An outgoing HTTP request as handed to \<open>requests\<close> or \<open>urllib.request\<close>.\<close>

record http_request =
  http_method :: string
  http_url :: string
  http_headers :: "(string \<times> string) list"
  http_json :: "json option"
  http_timeout :: nat

text \<open>
  The part of the process state and environment the handlers touch: \<open>clock w k\<close> is the
  value of the \<open>k\<close>-th evaluation of \<open>int(time.time() * 1000)\<close>, \<open>ticks\<close> counts the
  evaluations made so far, and \<open>sent\<close> logs the upstream requests issued so far.
\<close>

record world =
  clock :: "nat \<Rightarrow> int"
  ticks :: nat
  sent :: "http_request list"

definition time_ms :: "'a world_scheme \<Rightarrow> int \<times> 'a world_scheme" where
  "time_ms w = (clock w (ticks w), w\<lparr>ticks := Suc (ticks w)\<rparr>)"

text \<open>
  What \<open>requests.get/post/delete\<close> followed by \<open>response.json()\<close> can do: a response
  with any status code arrives (\<open>requests\<close> does not raise on a non-2xx status) and its
  body either parses to JSON (\<open>Inr\<close>) or \<open>response.json()\<close> raises
  \<open>requests.exceptions.JSONDecodeError\<close>, a \<open>RequestException\<close>, with the given message
  (\<open>Inl\<close>); or the call itself raises a \<open>RequestException\<close> with the given message.
\<close>

datatype requests_outcome =
    Requests_Response int "string + json"
  | Requests_Exception string

text \<open>
  What \<open>urllib.request.urlopen\<close> followed by \<open>json.loads(response.read().decode())\<close>
  can do. \<open>Urlopen_Response\<close>: a 2xx response whose body parses to JSON (\<open>Inr\<close>) or
  whose decoding or parsing raises with the given message (\<open>Inl\<close>).
  \<open>Urlopen_HTTPError code fp msg\<close>: \<open>urllib.error.HTTPError\<close> for a non-2xx status,
  with \<open>str(e) = msg\<close>; \<open>fp\<close> is \<open>None\<close> when \<open>e.fp\<close> is falsy, \<open>Some (Inr text)\<close>
  when \<open>e.read().decode()\<close> gives \<open>text\<close>, and \<open>Some (Inl m)\<close> when the decoding raises
  \<open>UnicodeDecodeError\<close>. \<open>Urlopen_Exception\<close>: any other exception, with its message.
\<close>

datatype urlopen_outcome =
    Urlopen_Response "string + json"
  | Urlopen_HTTPError int "(string + string) option" string
  | Urlopen_Exception string

text \<open>
  The upstream is a parameter: it answers the \<open>n\<close>-th request of the process
  (\<open>n = length (sent w)\<close>) with an outcome.
\<close>

type_synonym requests_upstream = "nat \<Rightarrow> http_request \<Rightarrow> requests_outcome"
type_synonym urlopen_upstream = "nat \<Rightarrow> http_request \<Rightarrow> urlopen_outcome"

section \<open>Signer\<close>

text \<open>\<open>generate_signature\<close> of \<open>server.py\<close>.\<close>

definition generate_signature_server ::
  "hmac_hex \<Rightarrow> config \<Rightarrow> string \<Rightarrow> string \<Rightarrow> string \<Rightarrow> string \<Rightarrow> 'a world_scheme
     \<Rightarrow> (string \<times> int) \<times> 'a world_scheme" where
  "generate_signature_server H cfg method path query_string body w =
     (let (timestamp, w1) = time_ms w;
          path_url =
            (if query_string \<noteq> []
             then path @ ''?'' @ query_string @ ''&timestamp='' @ str_int timestamp
             else path @ ''?timestamp='' @ str_int timestamp);
          sign_str = method @ path_url;
          sign_str = (if body \<noteq> [] then sign_str @ body else sign_str);
          signature = H (PIONEX_API_SECRET cfg) sign_str
      in ((signature, timestamp), w1))"

text \<open>\<open>generate_signature\<close> of \<open>api/index.py\<close>.\<close>

definition generate_signature_index ::
  "hmac_hex \<Rightarrow> config \<Rightarrow> string \<Rightarrow> string \<Rightarrow> string \<Rightarrow> string \<Rightarrow> 'a world_scheme
     \<Rightarrow> (string \<times> int) \<times> 'a world_scheme" where
  "generate_signature_index H cfg method path query_string body w =
     (let (timestamp, w1) = time_ms w;
          path_url =
            (if query_string \<noteq> []
             then path @ ''?'' @ query_string @ ''&timestamp='' @ str_int timestamp
             else path @ ''?timestamp='' @ str_int timestamp);
          sign_str = method @ path_url;
          sign_str = (if body \<noteq> [] then sign_str @ body else sign_str);
          signature = H (PIONEX_API_SECRET cfg) sign_str
      in ((signature, timestamp), w1))"

text \<open>\<open>generate_signature\<close> of \<open>api/positions.py\<close>, which has no body parameter.\<close>

definition generate_signature_positions ::
  "hmac_hex \<Rightarrow> config \<Rightarrow> string \<Rightarrow> string \<Rightarrow> string \<Rightarrow> 'a world_scheme
     \<Rightarrow> (string \<times> int) \<times> 'a world_scheme" where
  "generate_signature_positions H cfg method path query_string w =
     (let (timestamp, w1) = time_ms w;
          path_url =
            (if query_string \<noteq> []
             then path @ ''?'' @ query_string @ ''&timestamp='' @ str_int timestamp
             else path @ ''?timestamp='' @ str_int timestamp);
          sign_str = method @ path_url;
          signature = H (PIONEX_API_SECRET cfg) sign_str
      in ((signature, timestamp), w1))"

text \<open>
  The string the specification describes: the method, then the path followed by
  \<open>?{query}&timestamp={ts}\<close> for a non-empty query string or \<open>?timestamp={ts}\<close> for an
  empty one, then the serialised body when there is one.
\<close>

definition signed_string_spec ::
  "string \<Rightarrow> string \<Rightarrow> string \<Rightarrow> int \<Rightarrow> string option \<Rightarrow> string" where
  "signed_string_spec method path query ts body =
     method @ path
       @ (if query = [] then ''?timestamp='' @ str_int ts
          else ''?'' @ query @ ''&timestamp='' @ str_int ts)
       @ (case body of None \<Rightarrow> [] | Some b \<Rightarrow> b)"

section \<open>Router and proxy\<close>

text \<open>
  The values the routes put into the \<open>params\<close> dictionary: \<open>None\<close>, a \<open>str\<close> taken
  from the inbound query string, or an \<open>int\<close> default. \<open>format_param\<close> is what
  \<open>f"{value}"\<close> inserts.
\<close>

datatype param = PNone | PStr string | PInt int

fun format_param :: "param \<Rightarrow> string" where
  "format_param PNone = ''None''"
| "format_param (PStr s) = s"
| "format_param (PInt i) = str_int i"

text \<open>
  \<open>sorted(params.items())\<close>: the items are compared as tuples, and since the keys of a
  dictionary are distinct the comparison is decided by the keys alone.
\<close>

definition sorted_items :: "(string \<times> param) list \<Rightarrow> (string \<times> param) list" where
  "sorted_items params = sort_key fst params"

text \<open>The loop \<open>for key, value in ...: if value is not None: query_parts.append(...)\<close>.\<close>

fun query_loop :: "(string \<times> param) list \<Rightarrow> string list \<Rightarrow> string list" where
  "query_loop [] query_parts = query_parts"
| "query_loop ((key, val) # rest) query_parts =
     (if val \<noteq> PNone then query_loop rest (query_parts @ [key @ ''='' @ format_param val])
      else query_loop rest query_parts)"

text \<open>
  The block that builds \<open>query_string\<close> from \<open>params\<close>; it is the same text in the three
  variants of \<open>pionex_request\<close>. \<open>params\<close> defaults to \<open>None\<close>, and \<open>if params:\<close> skips
  the loop for \<open>None\<close> and for the empty dictionary.
\<close>

definition build_query_string :: "(string \<times> param) list option \<Rightarrow> string" where
  "build_query_string params =
     (let query_parts =
            (case params of
               None \<Rightarrow> []
             | Some ps \<Rightarrow> if ps \<noteq> [] then query_loop (sorted_items ps) [] else [])
      in join ''&'' query_parts)"

definition envelope_index :: "string \<Rightarrow> json" where
  "envelope_index msg = JObj [(''error'', JStr msg), (''result'', JBool False)]"

text \<open>
  The \<open>try\<close> block of \<open>pionex_request\<close> in \<open>server.py\<close> once the request is
  chosen: the call, then \<open>return response.json()\<close>, with the \<open>except\<close> clause.
\<close>

definition requests_json ::
  "requests_upstream \<Rightarrow> http_request \<Rightarrow> 'a world_scheme \<Rightarrow> json \<times> 'a world_scheme" where
  "requests_json upstream req w1 =
     (let w2 = w1\<lparr>sent := sent w1 @ [req]\<rparr>
      in (case upstream (length (sent w1)) req of
            Requests_Response code (Inr j) \<Rightarrow> (j, w2)
          | Requests_Response code (Inl msg) \<Rightarrow> (JObj [(''error'', JStr msg)], w2)
          | Requests_Exception msg \<Rightarrow> (JObj [(''error'', JStr msg)], w2)))"

text \<open>
  \<open>pionex_request\<close> of \<open>server.py\<close>. \<open>dumps\<close> stands for
  \<open>json.dumps(_, separators=(',', ':'))\<close>.
\<close>

definition pionex_request_server ::
  "hmac_hex \<Rightarrow> (json \<Rightarrow> string) \<Rightarrow> requests_upstream \<Rightarrow> config \<Rightarrow> string \<Rightarrow> string
     \<Rightarrow> (string \<times> param) list option \<Rightarrow> (string \<times> json) list option \<Rightarrow> 'a world_scheme
     \<Rightarrow> json \<times> 'a world_scheme" where
  "pionex_request_server H dumps upstream cfg method endpoint params body w =
     (if PIONEX_API_KEY cfg = [] \<or> PIONEX_API_SECRET cfg = [] then
        (JObj [(''error'', JStr ''API credentials not configured'')], w)
      else
        let query_string = build_query_string params;
            body_str =
              (case body of
                 None \<Rightarrow> []
               | Some b \<Rightarrow> if b \<noteq> [] then dumps (JObj b) else []);
            ((signature, timestamp), w1) =
              generate_signature_server H cfg method endpoint query_string body_str w;
            url =
              (if query_string \<noteq> []
               then PIONEX_API_URL @ endpoint @ ''?'' @ query_string
                      @ ''&timestamp='' @ str_int timestamp
               else PIONEX_API_URL @ endpoint @ ''?timestamp='' @ str_int timestamp);
            headers =
              [(''PIONEX-KEY'', PIONEX_API_KEY cfg),
               (''PIONEX-SIGNATURE'', signature),
               (''Content-Type'', ''application/json'')]
        in if method = ''GET'' then
             requests_json upstream
               \<lparr>http_method = ''GET'', http_url = url, http_headers = headers,
                http_json = None, http_timeout = 10\<rparr> w1
           else if method = ''POST'' then
             requests_json upstream
               \<lparr>http_method = ''POST'', http_url = url, http_headers = headers,
                http_json = map_option JObj body, http_timeout = 10\<rparr> w1
           else if method = ''DELETE'' then
             requests_json upstream
               \<lparr>http_method = ''DELETE'', http_url = url, http_headers = headers,
                http_json = map_option JObj body, http_timeout = 10\<rparr> w1
           else (JObj [(''error'', JStr (''Unsupported method: '' @ method))], w1))"

text \<open>The \<open>try\<close> block of \<open>pionex_request\<close> in \<open>api/index.py\<close> and \<open>api/positions.py\<close>.\<close>

definition urlopen_json ::
  "urlopen_upstream \<Rightarrow> http_request \<Rightarrow> 'a world_scheme
     \<Rightarrow> (py_error + json) \<times> 'a world_scheme" where
  "urlopen_json upstream req w1 =
     (let w2 = w1\<lparr>sent := sent w1 @ [req]\<rparr>
      in (case upstream (length (sent w1)) req of
            Urlopen_Response (Inr j) \<Rightarrow> (Inr j, w2)
          | Urlopen_Response (Inl msg) \<Rightarrow> (Inr (envelope_index msg), w2)
          | Urlopen_HTTPError code fp str_e \<Rightarrow>
              (case fp of
                 None \<Rightarrow>
                   (Inr (envelope_index (''HTTP '' @ str_int code @ '': '' @ str_e)), w2)
               | Some (Inr error_body) \<Rightarrow>
                   (Inr (envelope_index (''HTTP '' @ str_int code @ '': '' @ error_body)), w2)
               | Some (Inl m) \<Rightarrow> (Inl (UnicodeDecodeError m), w2))
          | Urlopen_Exception msg \<Rightarrow> (Inr (envelope_index msg), w2)))"

text \<open>\<open>pionex_request\<close> of \<open>api/index.py\<close>.\<close>

definition pionex_request_index ::
  "hmac_hex \<Rightarrow> urlopen_upstream \<Rightarrow> config \<Rightarrow> string \<Rightarrow> string
     \<Rightarrow> (string \<times> param) list option \<Rightarrow> 'a world_scheme
     \<Rightarrow> (py_error + json) \<times> 'a world_scheme" where
  "pionex_request_index H upstream cfg method endpoint params w =
     (if PIONEX_API_KEY cfg = [] \<or> PIONEX_API_SECRET cfg = [] then
        (Inr (JObj [(''error'', JStr ''API credentials not configured''),
                    (''result'', JBool False)]), w)
      else
        let query_string = build_query_string params;
            ((signature, timestamp), w1) =
              generate_signature_index H cfg method endpoint query_string [] w;
            url =
              (if query_string \<noteq> []
               then PIONEX_API_URL @ endpoint @ ''?'' @ query_string
                      @ ''&timestamp='' @ str_int timestamp
               else PIONEX_API_URL @ endpoint @ ''?timestamp='' @ str_int timestamp);
            headers =
              [(''PIONEX-KEY'', PIONEX_API_KEY cfg),
               (''PIONEX-SIGNATURE'', signature),
               (''Content-Type'', ''application/json'')]
        in urlopen_json upstream
             \<lparr>http_method = method, http_url = url, http_headers = headers,
              http_json = None, http_timeout = 10\<rparr> w1)"

text \<open>\<open>pionex_request\<close> of \<open>api/positions.py\<close>: always a \<open>GET\<close>, timeout 15.\<close>

definition pionex_request_positions ::
  "hmac_hex \<Rightarrow> urlopen_upstream \<Rightarrow> config \<Rightarrow> string
     \<Rightarrow> (string \<times> param) list option \<Rightarrow> 'a world_scheme
     \<Rightarrow> (py_error + json) \<times> 'a world_scheme" where
  "pionex_request_positions H upstream cfg endpoint params w =
     (if PIONEX_API_KEY cfg = [] \<or> PIONEX_API_SECRET cfg = [] then
        (Inr (JObj [(''error'', JStr ''API credentials not configured''),
                    (''result'', JBool False)]), w)
      else
        let query_string = build_query_string params;
            ((signature, timestamp), w1) =
              generate_signature_positions H cfg ''GET'' endpoint query_string w;
            url =
              (if query_string \<noteq> []
               then PIONEX_API_URL @ endpoint @ ''?'' @ query_string
                      @ ''&timestamp='' @ str_int timestamp
               else PIONEX_API_URL @ endpoint @ ''?timestamp='' @ str_int timestamp);
            headers =
              [(''PIONEX-KEY'', PIONEX_API_KEY cfg),
               (''PIONEX-SIGNATURE'', signature),
               (''Content-Type'', ''application/json'')]
        in urlopen_json upstream
             \<lparr>http_method = ''GET'', http_url = url, http_headers = headers,
              http_json = None, http_timeout = 15\<rparr> w1)"

section \<open>Routes of \<open>server.py\<close>\<close>

text \<open>What a Flask view returns: \<open>jsonify(resp_json), resp_code\<close> (200 when omitted).\<close>

record response =
  resp_code :: nat
  resp_json :: json

text \<open>\<open>a and b\<close> on two strings: \<open>a\<close> when \<open>a\<close> is falsy, otherwise \<open>b\<close>.\<close>

definition str_and :: "string \<Rightarrow> string \<Rightarrow> string" where
  "str_and a b = (if a = [] then a else b)"

definition health_check :: "config \<Rightarrow> 'a world_scheme \<Rightarrow> response \<times> 'a world_scheme" where
  "health_check cfg w =
     (\<lparr>resp_code = 200,
       resp_json = JObj [(''status'', JStr ''ok''),
                         (''configured'',
                          JBool (str_and (PIONEX_API_KEY cfg) (PIONEX_API_SECRET cfg) \<noteq> []))]\<rparr>,
      w)"

text \<open>
  Keys of \<open>MANUAL_BOT_DATA\<close>. A key comes from the JSON field \<open>name\<close> or from the URL.
  Lists and dictionaries are unhashable; \<open>True\<close> and \<open>1\<close> (and \<open>False\<close> and \<open>0\<close>) are
  equal and hash alike, so they are the same key.
\<close>

datatype pykey = KNone | KNum int | KStr string

fun hashable :: "json \<Rightarrow> pykey option" where
  "hashable JNull = Some KNone"
| "hashable (JBool b) = Some (KNum (if b then 1 else 0))"
| "hashable (JNum n) = Some (KNum n)"
| "hashable (JStr s) = Some (KStr s)"
| "hashable (JArr xs) = None"
| "hashable (JObj fs) = None"

text \<open>The process state of \<open>server.py\<close>: the world and the module-level dictionary.\<close>

record server_state = world +
  MANUAL_BOT_DATA :: "(pykey \<times> json) list"

definition get_bots :: "server_state \<Rightarrow> response \<times> server_state" where
  "get_bots w =
     (\<lparr>resp_code = 200,
       resp_json = JObj [(''result'', JBool True),
                         (''data'', JObj [(''bots'', JArr (dict_values (MANUAL_BOT_DATA w)))])]\<rparr>,
      w)"

text \<open>
  \<open>update_bot\<close>, with \<open>data = request.json\<close>. \<open>data.get\<close> raises \<open>AttributeError\<close>
  when the document is not an object; the dictionary display is evaluated, clock
  included, before the store raises \<open>TypeError\<close> on an unhashable name.
\<close>

definition update_bot :: "json \<Rightarrow> server_state \<Rightarrow> (py_error + response) \<times> server_state" where
  "update_bot data w =
     (case data of
        JObj kvs \<Rightarrow>
          (let bot_name = dict_get kvs ''name'' JNull
           in if \<not> truthy bot_name then
                (Inr \<lparr>resp_code = 400,
                      resp_json = JObj [(''error'', JStr ''Bot name required'')]\<rparr>, w)
              else
                let (updatedAt, w1) = time_ms w;
                    entry = JObj
                      [(''name'', bot_name),
                       (''pair'', dict_get kvs ''pair'' (JStr [])),
                       (''leverage'', dict_get kvs ''leverage'' (JNum 1)),
                       (''investment'', dict_get kvs ''investment'' (JNum 0)),
                       (''profit'', dict_get kvs ''profit'' (JNum 0)),
                       (''profitPercent'', dict_get kvs ''profitPercent'' (JNum 0)),
                       (''lastPrice'', dict_get kvs ''lastPrice'' (JNum 0)),
                       (''markPrice'', dict_get kvs ''markPrice'' (JNum 0)),
                       (''liqPrice'', dict_get kvs ''liqPrice'' JNull),
                       (''updatedAt'', JNum updatedAt)]
                in (case hashable bot_name of
                      None \<Rightarrow> (Inl TypeError, w1)
                    | Some k \<Rightarrow>
                        let w2 = w1\<lparr>MANUAL_BOT_DATA := dict_setitem k entry (MANUAL_BOT_DATA w1)\<rparr>
                        in (case map_of (MANUAL_BOT_DATA w2) k of
                              None \<Rightarrow> (Inl KeyError, w2)
                            | Some stored \<Rightarrow>
                                (Inr \<lparr>resp_code = 200,
                                      resp_json = JObj [(''result'', JBool True),
                                                        (''data'', stored)]\<rparr>, w2))))
      | _ \<Rightarrow> (Inl AttributeError, w))"

text \<open>
  The route \<open>/api/bots/<bot_name>\<close> has a variable part. Flask matches it against the
  decoded path with its default converter, which accepts a non-empty run of characters
  other than \<open>/\<close>. \<open>string_converter\<close> takes the text that follows \<open>/api/bots/\<close> in the
  decoded path of the request and gives the \<open>bot_name\<close> passed to the view, or \<open>None\<close>
  when the rule does not match.
\<close>

definition string_converter :: "string \<Rightarrow> string option" where
  "string_converter segment =
     (if segment \<noteq> [] \<and> CHR ''/'' \<notin> set segment then Some segment else None)"

text \<open>
  What a request to a route with a variable part gives: the response of the view, or no
  call of the view at all. In the second case Flask answers by itself (its own
  not-found page, or a redirect to the path with merged slashes) and the process state
  is not touched.
\<close>

datatype routed = Called response | Not_Called

text \<open>
  \<open>delete_bot\<close> with its route: \<open>DELETE /api/bots/\<close> followed by \<open>url_name\<close>.
\<close>

definition delete_bot :: "string \<Rightarrow> server_state \<Rightarrow> routed \<times> server_state" where
  "delete_bot url_name w =
     (case string_converter url_name of
        None \<Rightarrow> (Not_Called, w)
      | Some bot_name \<Rightarrow>
          if dict_contains (KStr bot_name) (MANUAL_BOT_DATA w) then
            (Called \<lparr>resp_code = 200, resp_json = JObj [(''result'', JBool True)]\<rparr>,
             w\<lparr>MANUAL_BOT_DATA := dict_delitem (KStr bot_name) (MANUAL_BOT_DATA w)\<rparr>)
          else
            (Called \<lparr>resp_code = 404, resp_json = JObj [(''error'', JStr ''Bot not found'')]\<rparr>,
             w))"

section \<open>Routes of \<open>api/index.py\<close> and \<open>api/positions.py\<close>\<close>

text \<open>The dictionary passed to \<open>handler\<close>; a missing key is \<open>None\<close>.\<close>

record request =
  request_path :: "string option"
  request_method :: "string option"

text \<open>The body of the returned dictionary: a literal string or \<open>json.dumps(_)\<close>.\<close>

datatype body = Body_Text string | Body_Dumps json

record handler_result =
  statusCode :: nat
  result_headers :: "(string \<times> string) list"
  result_body :: body

definition cors_headers :: "(string \<times> string) list" where
  "cors_headers =
     [(''Access-Control-Allow-Origin'', ''*''),
      (''Access-Control-Allow-Methods'', ''GET, POST, OPTIONS''),
      (''Access-Control-Allow-Headers'', ''Content-Type''),
      (''Content-Type'', ''application/json'')]"

text \<open>
  The two lines every single-call route repeats:
  \<open>response_body = pionex_request(...)\<close> and
  \<open>status_code = 200 if response_body.get("result") else 400\<close>; \<open>.get\<close> raises
  \<open>AttributeError\<close> when the upstream document is not an object.
\<close>

definition proxy_route ::
  "(py_error + json) \<times> 'a world_scheme \<Rightarrow> (py_error + json \<times> nat) \<times> 'a world_scheme" where
  "proxy_route r =
     (case r of
        (Inl e, w1) \<Rightarrow> (Inl e, w1)
      | (Inr response_body, w1) \<Rightarrow>
          (case response_body of
             JObj kvs \<Rightarrow>
               (Inr (response_body,
                     if truthy (dict_get kvs ''result'' JNull) then 200 else 400), w1)
           | _ \<Rightarrow> (Inl AttributeError, w1)))"

text \<open>
  \<open>handler\<close> of \<open>api/index.py\<close>. \<open>PIONEX_API_KEY[:8]\<close> is \<open>take 8\<close> for a key of
  ASCII characters, which is what an API key is.
\<close>

definition handler ::
  "hmac_hex \<Rightarrow> urlopen_upstream \<Rightarrow> config \<Rightarrow> request \<Rightarrow> 'a world_scheme
     \<Rightarrow> (py_error + handler_result) \<times> 'a world_scheme" where
  "handler H upstream cfg request w =
     (let path = (case request_path request of None \<Rightarrow> ''/'' | Some p \<Rightarrow> p);
          method = (case request_method request of None \<Rightarrow> ''GET'' | Some m \<Rightarrow> m);
          headers = cors_headers;
          finish = (\<lambda>r. case r of
              (Inl e, w1) \<Rightarrow> (Inl e, w1)
            | (Inr (response_body, status_code), w1) \<Rightarrow>
                (Inr \<lparr>statusCode = status_code, result_headers = headers,
                      result_body = Body_Dumps response_body\<rparr>, w1))
      in if method = ''OPTIONS'' then
           (Inr \<lparr>statusCode = 200, result_headers = headers, result_body = Body_Text []\<rparr>, w)
         else if path = ''/api'' \<or> path = ''/api/'' \<or> path = ''/api/health'' then
           finish (Inr (JObj [(''status'', JStr ''ok''),
                              (''configured'',
                               JBool (str_and (PIONEX_API_KEY cfg) (PIONEX_API_SECRET cfg) \<noteq> [])),
                              (''result'', JBool True)], 200), w)
         else if path = ''/api/futures/balance'' then
           finish (proxy_route (pionex_request_index H upstream cfg ''GET''
                     ''/api/v1/account/balances'' (Some [(''type'', PStr ''PERP'')]) w))
         else if path = ''/api/futures/positions'' then
           finish (proxy_route (pionex_request_index H upstream cfg ''GET''
                     ''/api/v1/futures/positions'' None w))
         else if path = ''/api/balance'' then
           finish (proxy_route (pionex_request_index H upstream cfg ''GET''
                     ''/api/v1/account/balances'' None w))
         else if path = ''/api/balances'' then
           (case pionex_request_index H upstream cfg ''GET''
                   ''/api/v1/account/balances'' (Some [(''type'', PStr ''SPOT'')]) w of
              (Inl e, w1) \<Rightarrow> (Inl e, w1)
            | (Inr spot, w1) \<Rightarrow>
                (case pionex_request_index H upstream cfg ''GET''
                        ''/api/v1/account/balances'' (Some [(''type'', PStr ''PERP'')]) w1 of
                   (Inl e, w2) \<Rightarrow> (Inl e, w2)
                 | (Inr perp, w2) \<Rightarrow>
                     finish (Inr (JObj [(''result'', JBool True), (''spot'', spot),
                                        (''futures'', perp)], 200), w2)))
         else if path = ''/api/futures/orders'' then
           finish (proxy_route (pionex_request_index H upstream cfg ''GET''
                     ''/api/v1/futures/openOrders'' None w))
         else if path = ''/api/test'' then
           finish (Inr (JObj [(''result'', JBool True),
                              (''message'', JStr ''API is working''),
                              (''has_key'', JBool (PIONEX_API_KEY cfg \<noteq> [])),
                              (''has_secret'', JBool (PIONEX_API_SECRET cfg \<noteq> [])),
                              (''key_preview'',
                               JStr (if PIONEX_API_KEY cfg \<noteq> []
                                     then take 8 (PIONEX_API_KEY cfg) @ ''...''
                                     else ''not set''))], 200), w)
         else
           finish (Inr (JObj [(''error'', JStr ''Not found''), (''result'', JBool False)], 404), w))"

text \<open>\<open>handler.do_GET\<close> of \<open>api/positions.py\<close>: status 200 and \<open>json.dumps(result)\<close>.\<close>

definition positions_do_GET ::
  "hmac_hex \<Rightarrow> urlopen_upstream \<Rightarrow> config \<Rightarrow> 'a world_scheme
     \<Rightarrow> (py_error + nat \<times> body) \<times> 'a world_scheme" where
  "positions_do_GET H upstream cfg w =
     (case pionex_request_positions H upstream cfg ''/api/v1/futures/positions'' None w of
        (Inl e, w1) \<Rightarrow> (Inl e, w1)
      | (Inr res, w1) \<Rightarrow> (Inr (200, Body_Dumps res), w1))"

section \<open>Properties stated by the specification\<close>

text \<open>
  One request as the specification wants it: between \<open>w\<close> and \<open>w'\<close> the clock was
  evaluated exactly once and exactly one request was issued; its URL carries the
  timestamp \<open>snd st\<close> and its signature header carries \<open>fst st\<close>, where \<open>st\<close> is the pair
  returned by the signer.
\<close>

definition one_signed_request ::
  "'a world_scheme \<Rightarrow> 'a world_scheme \<Rightarrow> string \<Rightarrow> string \<Rightarrow> string \<times> int \<Rightarrow> bool" where
  "one_signed_request w w' endpoint query st =
     (ticks w' = Suc (ticks w)
      \<and> sent w' = sent w @ [last (sent w')]
      \<and> http_url (last (sent w')) =
          PIONEX_API_URL @ endpoint
            @ (if query = [] then ''?timestamp='' @ str_int (snd st)
               else ''?'' @ query @ ''&timestamp='' @ str_int (snd st))
      \<and> map_of (http_headers (last (sent w'))) ''PIONEX-SIGNATURE'' = Some (fst st))"

text \<open>
  The error envelope of the specification: a JSON object with \<open>result: false\<close> and a
  string under \<open>error\<close>.
\<close>

definition is_error_envelope :: "json \<Rightarrow> bool" where
  "is_error_envelope j =
     (case j of
        JObj kvs \<Rightarrow>
          map_of kvs ''result'' = Some (JBool False)
          \<and> (case map_of kvs ''error'' of Some (JStr msg) \<Rightarrow> True | _ \<Rightarrow> False)
      | _ \<Rightarrow> False)"

text \<open>
  The manual bot store as the specification describes it. A record has the ten fields
  of \<open>bot_field_names\<close>, in the order of the dictionary display of \<open>update_bot\<close>;
  \<open>bot_defaults\<close> is the table of defaults for omitted fields, and \<open>bot_entry_spec\<close>
  is the record for a posted object: the posted name, every other field taken from the
  payload or else from the defaults, and the time stamp.
\<close>

definition bot_field_names :: "string list" where
  "bot_field_names =
     [''name'', ''pair'', ''leverage'', ''investment'', ''profit'', ''profitPercent'',
      ''lastPrice'', ''markPrice'', ''liqPrice'', ''updatedAt'']"

definition bot_defaults :: "(string \<times> json) list" where
  "bot_defaults =
     [(''pair'', JStr []), (''leverage'', JNum 1), (''investment'', JNum 0),
      (''profit'', JNum 0), (''profitPercent'', JNum 0), (''lastPrice'', JNum 0),
      (''markPrice'', JNum 0), (''liqPrice'', JNull)]"

definition bot_entry_spec :: "(string \<times> json) list \<Rightarrow> json \<Rightarrow> int \<Rightarrow> json" where
  "bot_entry_spec posted name t =
     JObj ((''name'', name)
           # map (\<lambda>(f, d). (f, case map_of posted f of None \<Rightarrow> d | Some v \<Rightarrow> v))
               bot_defaults
           @ [(''updatedAt'', JNum t)])"

text \<open>
  The invariant of the store: the keys are distinct (it is a dictionary), and each value
  is an object with exactly the ten fields whose \<open>name\<close> field is its key.
\<close>

definition well_formed_entry :: "pykey \<Rightarrow> json \<Rightarrow> bool" where
  "well_formed_entry k entry =
     (case entry of
        JObj kvs \<Rightarrow>
          map fst kvs = bot_field_names
          \<and> (case map_of kvs ''name'' of None \<Rightarrow> False | Some n \<Rightarrow> hashable n = Some k)
      | _ \<Rightarrow> False)"

definition store_inv :: "(pykey \<times> json) list \<Rightarrow> bool" where
  "store_inv store =
     (distinct (map fst store) \<and> list_all (\<lambda>kv. well_formed_entry (fst kv) (snd kv)) store)"

text \<open>The three operations on the store, and runs of them.\<close>

datatype bot_op = Op_Get | Op_Post json | Op_Delete string

fun bot_step :: "bot_op \<Rightarrow> server_state \<Rightarrow> server_state" where
  "bot_step Op_Get w = snd (get_bots w)"
| "bot_step (Op_Post data) w = snd (update_bot data w)"
| "bot_step (Op_Delete bot_name) w = snd (delete_bot bot_name w)"

fun bot_run :: "bot_op list \<Rightarrow> server_state \<Rightarrow> server_state" where
  "bot_run [] w = w"
| "bot_run (op # ops) w = bot_run ops (bot_step op w)"

text \<open>A field of the record stored under a key.\<close>

definition entry_field :: "(pykey \<times> json) list \<Rightarrow> pykey \<Rightarrow> string \<Rightarrow> json option" where
  "entry_field store k f =
     (case map_of store k of Some (JObj kvs) \<Rightarrow> map_of kvs f | _ \<Rightarrow> None)"

text \<open>
  The \<open>updatedAt\<close> of the record under \<open>k\<close> is strictly greater in \<open>after\<close> than in
  \<open>before\<close>.
\<close>

definition updatedAt_increased ::
  "(pykey \<times> json) list \<Rightarrow> (pykey \<times> json) list \<Rightarrow> pykey \<Rightarrow> bool" where
  "updatedAt_increased before after k =
     (case (entry_field before k ''updatedAt'', entry_field after k ''updatedAt'') of
        (Some (JNum t1), Some (JNum t2)) \<Rightarrow> t1 < t2
      | _ \<Rightarrow> False)"

section \<open>Concrete inputs for the examples\<close>

text \<open>A stand-in for the keyed hash, used only to run the functions on examples.\<close>

definition example_hmac :: hmac_hex where
  "example_hmac key msg = key @ ''|'' @ msg"

definition example_config :: config where
  "example_config = \<lparr>PIONEX_API_KEY = ''key-1234567890'', PIONEX_API_SECRET = ''s3cret''\<rparr>"

definition example_world :: world where
  "example_world = \<lparr>clock = (\<lambda>k. 1700000000123 + 5 * int k), ticks = 0, sent = []\<rparr>"

definition example_params :: "(string \<times> param) list" where
  "example_params = [(''symbol'', PStr ''BTC_USDT_PERP''), (''limit'', PInt 100), (''cursor'', PNone)]"

definition example_params_reordered :: "(string \<times> param) list" where
  "example_params_reordered =
     [(''cursor'', PNone), (''limit'', PInt 100), (''symbol'', PStr ''BTC_USDT_PERP'')]"

definition example_urlopen :: urlopen_upstream where
  \<open>example_urlopen n req =
     Urlopen_HTTPError 404 (Some (Inr ''{"code":"NOT_FOUND"}'')) ''HTTP Error 404: Not Found''\<close>

definition example_requests :: requests_upstream where
  "example_requests n req = Requests_Response 500 (Inr (JObj [(''message'', JStr ''upstream failure'')]))"

definition unconfigured :: config where
  "unconfigured = \<lparr>PIONEX_API_KEY = ''key-1234567890'', PIONEX_API_SECRET = []\<rparr>"

definition health_request :: request where
  "health_request = \<lparr>request_path = Some ''/api/health'', request_method = Some ''GET''\<rparr>"

definition example_server :: server_state where
  "example_server =
     \<lparr>clock = (\<lambda>k. 1700000000123 + 5 * int k), ticks = 0, sent = [], MANUAL_BOT_DATA = []\<rparr>"

text \<open>A clock that gives the same millisecond to two successive readings.\<close>

definition same_millisecond_server :: server_state where
  "same_millisecond_server =
     \<lparr>clock = (\<lambda>k. 1700000000123), ticks = 0, sent = [], MANUAL_BOT_DATA = []\<rparr>"

definition example_bot :: "(string \<times> json) list" where
  "example_bot = [(''name'', JStr ''bot1''), (''pair'', JStr ''BTCUSDT''), (''leverage'', JNum 5)]"

definition example_bot_again :: "(string \<times> json) list" where
  "example_bot_again =
     [(''name'', JStr ''bot1''), (''pair'', JStr ''ETHUSDT''), (''comment'', JStr ''extra'')]"



section \<open>Signer: the signed string\<close>

lemma str_int_example: "str_int 1700000000123 = ''1700000000123''"
  by code_simp

text \<open>
  C1. For every method, path, query string, body string and clock reading, each variant
  of \<open>generate_signature\<close> returns the keyed hash, under the configured secret, of the
  string made of the method, the path followed by \<open>?{query}&timestamp={ts}\<close> (non-empty
  query) or \<open>?timestamp={ts}\<close> (empty query), and the body string when there is one,
  together with the timestamp \<open>ts\<close> it read.
\<close>

theorem generate_signature_signed_string:
  "fst (generate_signature_server H cfg method path query body w) =
     (H (PIONEX_API_SECRET cfg)
        (signed_string_spec method path query (clock w (ticks w))
           (if body = [] then None else Some body)),
      clock w (ticks w))
   \<and> fst (generate_signature_index H cfg method path query body w) =
     (H (PIONEX_API_SECRET cfg)
        (signed_string_spec method path query (clock w (ticks w))
           (if body = [] then None else Some body)),
      clock w (ticks w))
   \<and> fst (generate_signature_positions H cfg method path query w) =
     (H (PIONEX_API_SECRET cfg)
        (signed_string_spec method path query (clock w (ticks w)) None),
      clock w (ticks w))"
  by (simp add: generate_signature_server_def generate_signature_index_def
      generate_signature_positions_def signed_string_spec_def time_ms_def)

theorem generate_signature_signed_string_witness:
  \<open>fst (generate_signature_server example_hmac example_config
          ''GET'' ''/api/v1/account/balances'' ''type=PERP'' [] example_world) =
     (example_hmac ''s3cret''
        ''GET/api/v1/account/balances?type=PERP&timestamp=1700000000123'',
      1700000000123)
   \<and> fst (generate_signature_server example_hmac example_config
          ''POST'' ''/api/v1/trade/order'' [] ''{"a":1}'' example_world) =
     (example_hmac ''s3cret'' ''POST/api/v1/trade/order?timestamp=1700000000123{"a":1}'',
      1700000000123)\<close>
  using generate_signature_signed_string
          [of example_hmac example_config \<open>''GET''\<close> \<open>''/api/v1/account/balances''\<close>
              \<open>''type=PERP''\<close> \<open>[]\<close> example_world]
        generate_signature_signed_string
          [of example_hmac example_config \<open>''POST''\<close> \<open>''/api/v1/trade/order''\<close>
              \<open>[]\<close> \<open>''{"a":1}''\<close> example_world]
  by (simp add: signed_string_spec_def example_world_def example_config_def str_int_example)

section \<open>Proxy: one timestamp for signing and for the URL\<close>

lemma requests_json_sent:
  "sent (snd (requests_json upstream req w1)) = sent w1 @ [req]
   \<and> ticks (snd (requests_json upstream req w1)) = ticks w1"
  by (simp add: requests_json_def Let_def split: requests_outcome.splits sum.splits)

lemma urlopen_json_sent:
  "sent (snd (urlopen_json upstream req w1)) = sent w1 @ [req]
   \<and> ticks (snd (urlopen_json upstream req w1)) = ticks w1"
  by (simp add: urlopen_json_def Let_def split: urlopen_outcome.splits sum.splits option.splits)

lemma server_one_signed_request:
  assumes "PIONEX_API_KEY cfg \<noteq> []" "PIONEX_API_SECRET cfg \<noteq> []"
    and "method = ''GET'' \<or> method = ''POST'' \<or> method = ''DELETE''"
  shows "one_signed_request w
           (snd (pionex_request_server H dumps upstream cfg method endpoint params body w))
           endpoint (build_query_string params)
           (fst (generate_signature_server H cfg method endpoint (build_query_string params)
                   (case body of None \<Rightarrow> []
                    | Some b \<Rightarrow> if b \<noteq> [] then dumps (JObj b) else []) w))"
proof -
  have "method = ''GET'' \<Longrightarrow> ?thesis"
    using assms(1,2)
    by (simp add: pionex_request_server_def one_signed_request_def
        generate_signature_server_def time_ms_def Let_def requests_json_sent)
  moreover have "method = ''POST'' \<Longrightarrow> ?thesis"
    using assms(1,2)
    by (simp add: pionex_request_server_def one_signed_request_def
        generate_signature_server_def time_ms_def Let_def requests_json_sent)
  moreover have "method = ''DELETE'' \<Longrightarrow> ?thesis"
    using assms(1,2)
    by (simp add: pionex_request_server_def one_signed_request_def
        generate_signature_server_def time_ms_def Let_def requests_json_sent)
  ultimately show ?thesis using assms(3) by (elim disjE)
qed

lemma index_one_signed_request:
  assumes "PIONEX_API_KEY cfg \<noteq> []" "PIONEX_API_SECRET cfg \<noteq> []"
  shows "one_signed_request w
           (snd (pionex_request_index H upstream cfg method endpoint params w))
           endpoint (build_query_string params)
           (fst (generate_signature_index H cfg method endpoint
                   (build_query_string params) [] w))"
  using assms
  by (simp add: pionex_request_index_def one_signed_request_def generate_signature_index_def
      time_ms_def Let_def urlopen_json_sent)

lemma positions_one_signed_request:
  assumes "PIONEX_API_KEY cfg \<noteq> []" "PIONEX_API_SECRET cfg \<noteq> []"
  shows "one_signed_request w
           (snd (pionex_request_positions H upstream cfg endpoint params w))
           endpoint (build_query_string params)
           (fst (generate_signature_positions H cfg ''GET'' endpoint
                   (build_query_string params) w))"
  using assms
  by (simp add: pionex_request_positions_def one_signed_request_def
      generate_signature_positions_def time_ms_def Let_def urlopen_json_sent)

text \<open>
  C2. In every variant of \<open>pionex_request\<close> that issues a request (credentials set and,
  in \<open>server.py\<close>, a supported method), the clock is evaluated exactly once, and the
  timestamp in the request URL is the one returned by the \<open>generate_signature\<close> call
  whose signature the request carries.
\<close>

theorem pionex_request_single_timestamp:
  assumes "PIONEX_API_KEY cfg \<noteq> []" and "PIONEX_API_SECRET cfg \<noteq> []"
  shows "(verb = ''GET'' \<or> verb = ''POST'' \<or> verb = ''DELETE'' \<longrightarrow>
            one_signed_request w
              (snd (pionex_request_server H dumps up_requests cfg verb endpoint params body w))
              endpoint (build_query_string params)
              (fst (generate_signature_server H cfg verb endpoint (build_query_string params)
                      (case body of None \<Rightarrow> []
                       | Some b \<Rightarrow> if b \<noteq> [] then dumps (JObj b) else []) w)))
         \<and> one_signed_request w
              (snd (pionex_request_index H up_urlopen cfg verb endpoint params w))
              endpoint (build_query_string params)
              (fst (generate_signature_index H cfg verb endpoint
                      (build_query_string params) [] w))
         \<and> one_signed_request w
              (snd (pionex_request_positions H up_urlopen cfg endpoint params w))
              endpoint (build_query_string params)
              (fst (generate_signature_positions H cfg ''GET'' endpoint
                      (build_query_string params) w))"
proof (intro conjI impI)
  assume "verb = ''GET'' \<or> verb = ''POST'' \<or> verb = ''DELETE''"
  with assms show "one_signed_request w
      (snd (pionex_request_server H dumps up_requests cfg verb endpoint params body w))
      endpoint (build_query_string params)
      (fst (generate_signature_server H cfg verb endpoint (build_query_string params)
              (case body of None \<Rightarrow> []
               | Some b \<Rightarrow> if b \<noteq> [] then dumps (JObj b) else []) w))"
    by (rule server_one_signed_request)
next
  from assms show "one_signed_request w
      (snd (pionex_request_index H up_urlopen cfg verb endpoint params w))
      endpoint (build_query_string params)
      (fst (generate_signature_index H cfg verb endpoint (build_query_string params) [] w))"
    by (rule index_one_signed_request)
next
  from assms show "one_signed_request w
      (snd (pionex_request_positions H up_urlopen cfg endpoint params w))
      endpoint (build_query_string params)
      (fst (generate_signature_positions H cfg ''GET'' endpoint (build_query_string params) w))"
    by (rule positions_one_signed_request)
qed


lemma example_query_string:
  "build_query_string (Some [(''type'', PStr ''PERP'')]) = ''type=PERP''"
  by code_simp

theorem pionex_request_single_timestamp_witness:
  "PIONEX_API_KEY example_config \<noteq> [] \<and> PIONEX_API_SECRET example_config \<noteq> []
   \<and> ticks (snd (pionex_request_index example_hmac example_urlopen example_config ''GET''
                    ''/api/v1/account/balances'' (Some [(''type'', PStr ''PERP'')])
                    example_world)) = 1
   \<and> http_url (last (sent (snd (pionex_request_index example_hmac example_urlopen
                    example_config ''GET'' ''/api/v1/account/balances''
                    (Some [(''type'', PStr ''PERP'')]) example_world)))) =
       ''https://api.pionex.com/api/v1/account/balances?type=PERP&timestamp=1700000000123''
   \<and> snd (fst (generate_signature_index example_hmac example_config ''GET''
                    ''/api/v1/account/balances'' ''type=PERP'' [] example_world)) =
       1700000000123"
proof -
  have k: "PIONEX_API_KEY example_config \<noteq> []" and s: "PIONEX_API_SECRET example_config \<noteq> []"
    by (simp_all add: example_config_def)
  have g: "snd (fst (generate_signature_index example_hmac example_config ''GET''
                    ''/api/v1/account/balances'' ''type=PERP'' [] example_world)) =
           1700000000123"
    by (simp add: generate_signature_index_def time_ms_def example_world_def)
  have t: "ticks example_world = 0"
    by (simp add: example_world_def)
  from pionex_request_single_timestamp
         [OF k s, where H = example_hmac and up_urlopen = example_urlopen
            and verb = "''GET''" and endpoint = "''/api/v1/account/balances''"
            and params = "Some [(''type'', PStr ''PERP'')]" and w = example_world]
  have "one_signed_request example_world
          (snd (pionex_request_index example_hmac example_urlopen example_config ''GET''
                  ''/api/v1/account/balances'' (Some [(''type'', PStr ''PERP'')])
                  example_world))
          ''/api/v1/account/balances'' ''type=PERP''
          (fst (generate_signature_index example_hmac example_config ''GET''
                  ''/api/v1/account/balances'' ''type=PERP'' [] example_world))"
    by (simp add: example_query_string)
  then show ?thesis
    using k s g t
    by (simp add: one_signed_request_def PIONEX_API_URL_def str_int_example)
qed

section \<open>Proxy: the canonical query string\<close>

lemma query_loop_eq:
  "query_loop xs acc =
     acc @ map (\<lambda>kv. fst kv @ ''='' @ format_param (snd kv)) (filter (\<lambda>kv. snd kv \<noteq> PNone) xs)"
  by (induction xs acc rule: query_loop.induct) auto

lemma build_query_string_Some:
  "build_query_string (Some ps) =
     join ''&'' (map (\<lambda>kv. fst kv @ ''='' @ format_param (snd kv))
                  (filter (\<lambda>kv. snd kv \<noteq> PNone) (sort_key fst ps)))"
  by (cases ps) (simp_all add: build_query_string_def sorted_items_def query_loop_eq Let_def)

lemma rebuild_from_keys:
  "distinct (map fst xs) \<Longrightarrow> map (\<lambda>k. (k, the (map_of xs k))) (map fst xs) = xs"
proof (induction xs)
  case Nil
  then show ?case by simp
next
  case (Cons a xs)
  then have "\<forall>k \<in> set (map fst xs). k \<noteq> fst a" by force
  then have "map (\<lambda>k. (k, the (map_of (a # xs) k))) (map fst xs)
           = map (\<lambda>k. (k, the (map_of xs k))) (map fst xs)"
    by (cases a) (auto simp del: map_map)
  with Cons show ?case by (cases a) simp
qed

lemma sort_key_fst_cong:
  assumes "distinct (map fst ps)" "distinct (map fst qs)" "set ps = set qs"
  shows "sort_key fst ps = sort_key fst qs"
proof -
  let ?xs = "sort_key fst ps" and ?ys = "sort_key fst qs"
  have dx: "distinct (map fst ?xs)" and dy: "distinct (map fst ?ys)"
    using assms(1,2) by (simp_all add: distinct_map)
  have sx: "set ?xs = set ?ys" using assms(3) by simp
  have "set (map fst ?xs) = set (map fst ?ys)" using sx by simp
  then have keys: "map fst ?xs = map fst ?ys"
    using dx dy by (intro sorted_distinct_set_unique) simp_all
  have "map_of ?xs = map_of ?ys"
    using dx dy sx by (simp add: map_of_inject_set)
  then have "map (\<lambda>k. (k, the (map_of ?xs k))) (map fst ?xs)
           = map (\<lambda>k. (k, the (map_of ?ys k))) (map fst ?ys)"
    using keys by simp
  then show ?thesis
    using rebuild_from_keys[OF dx] rebuild_from_keys[OF dy] by simp
qed

lemma sorted_filter_keys:
  "distinct (map fst ps) \<Longrightarrow>
     sorted_wrt (<) (map fst (filter P (sort_key fst ps)))"
proof -
  assume d: "distinct (map fst ps)"
  have "sorted (map fst (sort_key fst ps))" by simp
  moreover have "distinct (map fst (sort_key fst ps))" using d by (simp add: distinct_map)
  ultimately have "sorted_wrt (<) (map fst (sort_key fst ps))"
    by (simp add: strict_sorted_iff)
  then show ?thesis
    by (simp add: sorted_wrt_map sorted_wrt_filter)
qed

text \<open>
  C3. For a parameter dictionary (distinct keys), the query string built by
  \<open>pionex_request\<close> joins with \<open>&\<close> the \<open>key=value\<close> pairs of exactly the parameters
  whose value is not \<open>None\<close>, in strictly increasing lexicographic order of the keys;
  two dictionaries with the same items give the same query string whatever their
  insertion order.
\<close>

theorem canonical_query_string:
  assumes "distinct (map fst ps)"
  shows "build_query_string (Some ps) =
           join ''&'' (map (\<lambda>kv. fst kv @ ''='' @ format_param (snd kv))
                        (filter (\<lambda>kv. snd kv \<noteq> PNone) (sort_key fst ps)))
         \<and> sorted_wrt (<) (map fst (filter (\<lambda>kv. snd kv \<noteq> PNone) (sort_key fst ps)))
         \<and> set (filter (\<lambda>kv. snd kv \<noteq> PNone) (sort_key fst ps)) = {kv \<in> set ps. snd kv \<noteq> PNone}
         \<and> (\<forall>qs. distinct (map fst qs) \<and> set qs = set ps
               \<longrightarrow> build_query_string (Some qs) = build_query_string (Some ps))"
proof (intro conjI allI impI)
  show "build_query_string (Some ps) =
           join ''&'' (map (\<lambda>kv. fst kv @ ''='' @ format_param (snd kv))
                        (filter (\<lambda>kv. snd kv \<noteq> PNone) (sort_key fst ps)))"
    by (rule build_query_string_Some)
  show "sorted_wrt (<) (map fst (filter (\<lambda>kv. snd kv \<noteq> PNone) (sort_key fst ps)))"
    using assms by (rule sorted_filter_keys)
  show "set (filter (\<lambda>kv. snd kv \<noteq> PNone) (sort_key fst ps)) = {kv \<in> set ps. snd kv \<noteq> PNone}"
    by auto
next
  fix qs assume "distinct (map fst qs) \<and> set qs = set ps"
  then have "sort_key fst qs = sort_key fst ps"
    using assms by (intro sort_key_fst_cong) simp_all
  then show "build_query_string (Some qs) = build_query_string (Some ps)"
    by (simp add: build_query_string_Some)
qed

lemma example_params_query:
  "build_query_string (Some example_params) = ''limit=100&symbol=BTC_USDT_PERP''"
  by code_simp

theorem canonical_query_string_witness:
  "distinct (map fst example_params)
   \<and> build_query_string (Some example_params) = ''limit=100&symbol=BTC_USDT_PERP''
   \<and> build_query_string (Some example_params_reordered) = ''limit=100&symbol=BTC_USDT_PERP''"
proof -
  have d: "distinct (map fst example_params)"
    by (simp add: example_params_def)
  have r: "distinct (map fst example_params_reordered)
           \<and> set example_params_reordered = set example_params"
    by (simp add: example_params_def example_params_reordered_def insert_commute)
  from canonical_query_string[OF d] r
  have "build_query_string (Some example_params_reordered) =
        build_query_string (Some example_params)"
    by blast
  with d show ?thesis
    by (simp add: example_params_query)
qed

section \<open>Proxy: upstream HTTP errors\<close>

lemma urlopen_json_http_error:
  assumes "upstream (length (sent w1)) req = Urlopen_HTTPError code (Some (Inr error_body)) str_e"
  shows "fst (urlopen_json upstream req w1) =
           Inr (JObj [(''error'', JStr (''HTTP '' @ str_int code @ '': '' @ error_body)),
                      (''result'', JBool False)])"
  using assms by (simp add: urlopen_json_def envelope_index_def Let_def)

lemma requests_json_passthrough:
  assumes "upstream (length (sent w1)) req = Requests_Response code (Inr j)"
  shows "fst (requests_json upstream req w1) = j"
  using assms by (simp add: requests_json_def Let_def)

lemma index_http_error:
  assumes "PIONEX_API_KEY cfg \<noteq> []" "PIONEX_API_SECRET cfg \<noteq> []"
    and "\<forall>n req. up_urlopen n req = Urlopen_HTTPError code (Some (Inr error_body)) str_e"
  shows "fst (pionex_request_index H up_urlopen cfg verb endpoint params w) =
           Inr (JObj [(''error'', JStr (''HTTP '' @ str_int code @ '': '' @ error_body)),
                      (''result'', JBool False)])"
  using assms(1,2)
  by (simp add: pionex_request_index_def generate_signature_index_def time_ms_def Let_def
      urlopen_json_http_error[OF assms(3)[rule_format]])

lemma positions_http_error:
  assumes "PIONEX_API_KEY cfg \<noteq> []" "PIONEX_API_SECRET cfg \<noteq> []"
    and "\<forall>n req. up_urlopen n req = Urlopen_HTTPError code (Some (Inr error_body)) str_e"
  shows "fst (pionex_request_positions H up_urlopen cfg endpoint params w) =
           Inr (JObj [(''error'', JStr (''HTTP '' @ str_int code @ '': '' @ error_body)),
                      (''result'', JBool False)])"
  using assms(1,2)
  by (simp add: pionex_request_positions_def generate_signature_positions_def time_ms_def Let_def
      urlopen_json_http_error[OF assms(3)[rule_format]])

lemma server_passthrough:
  assumes "PIONEX_API_KEY cfg \<noteq> []" "PIONEX_API_SECRET cfg \<noteq> []"
    and "\<forall>n req. up_requests n req = Requests_Response code (Inr j)"
    and "verb = ''GET'' \<or> verb = ''POST'' \<or> verb = ''DELETE''"
  shows "fst (pionex_request_server H dumps up_requests cfg verb endpoint params body w) = j"
proof -
  have "verb = ''GET'' \<Longrightarrow> ?thesis"
    using assms(1,2)
    by (simp add: pionex_request_server_def generate_signature_server_def time_ms_def Let_def
        requests_json_passthrough[OF assms(3)[rule_format]])
  moreover have "verb = ''POST'' \<Longrightarrow> ?thesis"
    using assms(1,2)
    by (simp add: pionex_request_server_def generate_signature_server_def time_ms_def Let_def
        requests_json_passthrough[OF assms(3)[rule_format]])
  moreover have "verb = ''DELETE'' \<Longrightarrow> ?thesis"
    using assms(1,2)
    by (simp add: pionex_request_server_def generate_signature_server_def time_ms_def Let_def
        requests_json_passthrough[OF assms(3)[rule_format]])
  ultimately show ?thesis using assms(4) by (elim disjE)
qed


lemma proxy_route_envelope:
  assumes "fst r = Inr (JObj [(''error'', JStr msg), (''result'', JBool False)])"
  shows "fst (proxy_route r) = Inr (JObj [(''error'', JStr msg), (''result'', JBool False)], 400)"
  using assms by (cases r) (simp add: proxy_route_def dict_get_def)

lemma handler_single_route:
  assumes "request_method request \<noteq> Some ''OPTIONS''"
    and "fst (pionex_request_index H up cfg ''GET'' endpoint params w) =
           Inr (JObj [(''error'', JStr msg), (''result'', JBool False)])"
  shows "fst ((case proxy_route (pionex_request_index H up cfg ''GET'' endpoint params w) of
            (Inl e, w1) \<Rightarrow> (Inl e, w1)
          | (Inr (response_body, status_code), w1) \<Rightarrow>
              (Inr \<lparr>statusCode = status_code, result_headers = cors_headers,
                    result_body = Body_Dumps response_body\<rparr>, w1))) =
         Inr \<lparr>statusCode = 400, result_headers = cors_headers,
              result_body = Body_Dumps (JObj [(''error'', JStr msg), (''result'', JBool False)])\<rparr>"
proof -
  obtain x w1 where p: "proxy_route (pionex_request_index H up cfg ''GET'' endpoint params w) = (x, w1)"
    by (cases "proxy_route (pionex_request_index H up cfg ''GET'' endpoint params w)")
  with proxy_route_envelope[OF assms(2)]
  have "x = Inr (JObj [(''error'', JStr msg), (''result'', JBool False)], 400)" by simp
  with p show ?thesis by simp
qed

lemma handler_http_error:
  assumes "PIONEX_API_KEY cfg \<noteq> []" "PIONEX_API_SECRET cfg \<noteq> []"
    and up: "\<forall>n req. up_urlopen n req = Urlopen_HTTPError code (Some (Inr error_body)) str_e"
    and m: "request_method request \<noteq> Some ''OPTIONS''"
    and p: "request_path request = Some p"
    and r: "p = ''/api/futures/balance'' \<or> p = ''/api/futures/positions''
            \<or> p = ''/api/balance'' \<or> p = ''/api/futures/orders''"
  shows "fst (handler H up_urlopen cfg request w) =
         Inr \<lparr>statusCode = 400, result_headers = cors_headers,
              result_body = Body_Dumps
                (JObj [(''error'', JStr (''HTTP '' @ str_int code @ '': '' @ error_body)),
                       (''result'', JBool False)])\<rparr>"
proof -
  note e = index_http_error[OF assms(1,2) up]
  have nm: "(case request_method request of None \<Rightarrow> ''GET'' | Some m \<Rightarrow> m) \<noteq> ''OPTIONS''"
    using m by (cases "request_method request") simp_all
  have "p = ''/api/futures/balance'' \<Longrightarrow> ?thesis"
    using nm p by (simp add: handler_def Let_def handler_single_route[OF m e])
  moreover have "p = ''/api/futures/positions'' \<Longrightarrow> ?thesis"
    using nm p by (simp add: handler_def Let_def handler_single_route[OF m e])
  moreover have "p = ''/api/balance'' \<Longrightarrow> ?thesis"
    using nm p by (simp add: handler_def Let_def handler_single_route[OF m e])
  moreover have "p = ''/api/futures/orders'' \<Longrightarrow> ?thesis"
    using nm p by (simp add: handler_def Let_def handler_single_route[OF m e])
  ultimately show ?thesis using r by (elim disjE)
qed


lemma positions_do_GET_http_error:
  assumes "PIONEX_API_KEY cfg \<noteq> []" "PIONEX_API_SECRET cfg \<noteq> []"
    and up: "\<forall>n req. up_urlopen n req = Urlopen_HTTPError code (Some (Inr error_body)) str_e"
  shows "fst (positions_do_GET H up_urlopen cfg w) =
           Inr (200, Body_Dumps
                 (JObj [(''error'', JStr (''HTTP '' @ str_int code @ '': '' @ error_body)),
                        (''result'', JBool False)]))"
proof -
  obtain x w1 where
    p: "pionex_request_positions H up_urlopen cfg ''/api/v1/futures/positions'' None w = (x, w1)"
    by (cases "pionex_request_positions H up_urlopen cfg ''/api/v1/futures/positions'' None w")
  with positions_http_error
         [OF assms(1,2) up, where H = H and endpoint = "''/api/v1/futures/positions''"
            and params = None and w = w]
  show ?thesis by (simp add: positions_do_GET_def)
qed

text \<open>
  C4 (as the code has it). With credentials set: when \<open>urlopen\<close> raises \<open>HTTPError\<close>
  with status \<open>code\<close> and a body that decodes to \<open>error_body\<close>, \<open>pionex_request\<close> of
  \<open>api/index.py\<close> and of \<open>api/positions.py\<close> returns
  \<open>{"error": "HTTP {code}: {error_body}", "result": false}\<close>; \<open>positions.py\<close> sends it
  with status 200 and the single-call routes of \<open>index.py\<close> send it with status 400.
  \<open>pionex_request\<close> of \<open>server.py\<close> returns the parsed upstream document unchanged
  whatever the status.
\<close>

theorem upstream_http_error_surfaced:
  assumes "PIONEX_API_KEY cfg \<noteq> []" and "PIONEX_API_SECRET cfg \<noteq> []"
  shows "((\<forall>n req. up_urlopen n req = Urlopen_HTTPError code (Some (Inr error_body)) str_e) \<longrightarrow>
            fst (pionex_request_index H up_urlopen cfg verb endpoint params w) =
              Inr (JObj [(''error'', JStr (''HTTP '' @ str_int code @ '': '' @ error_body)),
                         (''result'', JBool False)])
          \<and> fst (pionex_request_positions H up_urlopen cfg endpoint params w) =
              Inr (JObj [(''error'', JStr (''HTTP '' @ str_int code @ '': '' @ error_body)),
                         (''result'', JBool False)])
          \<and> fst (positions_do_GET H up_urlopen cfg w) =
              Inr (200, Body_Dumps
                    (JObj [(''error'', JStr (''HTTP '' @ str_int code @ '': '' @ error_body)),
                           (''result'', JBool False)]))
          \<and> (request_method request \<noteq> Some ''OPTIONS'' \<and> request_path request = Some p
               \<and> (p = ''/api/futures/balance'' \<or> p = ''/api/futures/positions''
                    \<or> p = ''/api/balance'' \<or> p = ''/api/futures/orders'') \<longrightarrow>
              fst (handler H up_urlopen cfg request w) =
                Inr \<lparr>statusCode = 400, result_headers = cors_headers,
                     result_body = Body_Dumps
                       (JObj [(''error'', JStr (''HTTP '' @ str_int code @ '': '' @ error_body)),
                              (''result'', JBool False)])\<rparr>))
         \<and> ((\<forall>n req. up_requests n req = Requests_Response status (Inr j))
              \<and> (verb = ''GET'' \<or> verb = ''POST'' \<or> verb = ''DELETE'') \<longrightarrow>
            fst (pionex_request_server H dumps up_requests cfg verb endpoint params body w) = j)"
proof (intro conjI impI)
  assume up: "\<forall>n req. up_urlopen n req = Urlopen_HTTPError code (Some (Inr error_body)) str_e"
  show "fst (pionex_request_index H up_urlopen cfg verb endpoint params w) =
              Inr (JObj [(''error'', JStr (''HTTP '' @ str_int code @ '': '' @ error_body)),
                         (''result'', JBool False)])"
    by (rule index_http_error[OF assms up])
  show "fst (pionex_request_positions H up_urlopen cfg endpoint params w) =
              Inr (JObj [(''error'', JStr (''HTTP '' @ str_int code @ '': '' @ error_body)),
                         (''result'', JBool False)])"
    by (rule positions_http_error[OF assms up])
  show "fst (positions_do_GET H up_urlopen cfg w) =
              Inr (200, Body_Dumps
                    (JObj [(''error'', JStr (''HTTP '' @ str_int code @ '': '' @ error_body)),
                           (''result'', JBool False)]))"
    by (rule positions_do_GET_http_error[OF assms up])
  assume r: "request_method request \<noteq> Some ''OPTIONS'' \<and> request_path request = Some p
               \<and> (p = ''/api/futures/balance'' \<or> p = ''/api/futures/positions''
                    \<or> p = ''/api/balance'' \<or> p = ''/api/futures/orders'')"
  show "fst (handler H up_urlopen cfg request w) =
                Inr \<lparr>statusCode = 400, result_headers = cors_headers,
                     result_body = Body_Dumps
                       (JObj [(''error'', JStr (''HTTP '' @ str_int code @ '': '' @ error_body)),
                              (''result'', JBool False)])\<rparr>"
    by (rule handler_http_error
          [OF assms up r[THEN conjunct1] r[THEN conjunct2, THEN conjunct1]
              r[THEN conjunct2, THEN conjunct2]])
next
  assume a: "(\<forall>n req. up_requests n req = Requests_Response status (Inr j))
              \<and> (verb = ''GET'' \<or> verb = ''POST'' \<or> verb = ''DELETE'')"
  then have up: "\<forall>n req. up_requests n req = Requests_Response status (Inr j)" by (rule conjunct1)
  show "fst (pionex_request_server H dumps up_requests cfg verb endpoint params body w) = j"
    by (rule server_passthrough[OF assms up a[THEN conjunct2]])
qed


lemma str_int_404: "str_int 404 = ''404''"
  by code_simp

lemma example_config_set:
  "PIONEX_API_KEY example_config \<noteq> []" "PIONEX_API_SECRET example_config \<noteq> []"
  by (simp_all add: example_config_def)

lemma example_requests_always:
  "\<forall>n req. example_requests n req =
     Requests_Response 500 (Inr (JObj [(''message'', JStr ''upstream failure'')]))"
  by (simp add: example_requests_def)

lemma example_urlopen_always:
  \<open>\<forall>n req. example_urlopen n req =
     Urlopen_HTTPError 404 (Some (Inr ''{"code":"NOT_FOUND"}'')) ''HTTP Error 404: Not Found''\<close>
  by (simp add: example_urlopen_def)

theorem upstream_http_error_surfaced_witness:
  \<open>PIONEX_API_KEY example_config \<noteq> [] \<and> PIONEX_API_SECRET example_config \<noteq> []
   \<and> fst (pionex_request_index example_hmac example_urlopen example_config ''GET''
             ''/api/v1/futures/positions'' None example_world) =
       Inr (JObj [(''error'', JStr ''HTTP 404: {"code":"NOT_FOUND"}''),
                  (''result'', JBool False)])
   \<and> fst (pionex_request_server example_hmac (\<lambda>j. []) example_requests example_config ''GET''
             ''/api/v1/futures/positions'' None None example_world) =
       JObj [(''message'', JStr ''upstream failure'')]\<close>
proof -
  note T = upstream_http_error_surfaced
    [OF example_config_set, where up_urlopen = example_urlopen and H = example_hmac
       and verb = \<open>''GET''\<close> and endpoint = \<open>''/api/v1/futures/positions''\<close>
       and params = None and w = example_world and up_requests = example_requests
       and dumps = \<open>\<lambda>j. []\<close> and body = None
       and code = 404 and status = 500 and error_body = \<open>''{"code":"NOT_FOUND"}''\<close>
       and str_e = \<open>''HTTP Error 404: Not Found''\<close>
       and j = \<open>JObj [(''message'', JStr ''upstream failure'')]\<close>]
  have a: \<open>fst (pionex_request_index example_hmac example_urlopen example_config ''GET''
             ''/api/v1/futures/positions'' None example_world) =
       Inr (JObj [(''error'', JStr ''HTTP 404: {"code":"NOT_FOUND"}''),
                  (''result'', JBool False)])\<close>
    using T[THEN conjunct1, THEN mp, OF example_urlopen_always, THEN conjunct1]
    by (simp add: str_int_404)
  have b: "fst (pionex_request_server example_hmac (\<lambda>j. []) example_requests example_config ''GET''
             ''/api/v1/futures/positions'' None None example_world) =
       JObj [(''message'', JStr ''upstream failure'')]"
    by (rule T[THEN conjunct2, THEN mp]) (simp add: example_requests_always)
  from a b example_config_set show ?thesis by simp
qed

theorem server_returns_upstream_error_body_unwrapped:
  "\<not> is_error_envelope
       (fst (pionex_request_server example_hmac (\<lambda>j. []) example_requests example_config ''GET''
               ''/api/v1/futures/positions'' None None example_world))"
proof -
  have "fst (pionex_request_server example_hmac (\<lambda>j. []) example_requests example_config ''GET''
               ''/api/v1/futures/positions'' None None example_world) =
        JObj [(''message'', JStr ''upstream failure'')]"
    by (rule server_passthrough[OF example_config_set example_requests_always]) simp
  then show ?thesis by (simp add: is_error_envelope_def)
qed

section \<open>Proxy: missing credentials\<close>

text \<open>
  C5 (as the code has it). If either credential is empty, every variant of
  \<open>pionex_request\<close> returns at once, leaving the world unchanged (no clock reading, no
  upstream request), a JSON object with the error string
  \<open>API credentials not configured\<close>; in \<open>api/index.py\<close> and \<open>api/positions.py\<close> the
  object also has \<open>result: false\<close>, in \<open>server.py\<close> it has the \<open>error\<close> key only.
\<close>

theorem credentials_missing_short_circuit:
  assumes "PIONEX_API_KEY cfg = [] \<or> PIONEX_API_SECRET cfg = []"
  shows "pionex_request_server H dumps up_requests cfg verb endpoint params body w =
           (JObj [(''error'', JStr ''API credentials not configured'')], w)
         \<and> pionex_request_index H up_urlopen cfg verb endpoint params w =
           (Inr (JObj [(''error'', JStr ''API credentials not configured''),
                       (''result'', JBool False)]), w)
         \<and> pionex_request_positions H up_urlopen cfg endpoint params w =
           (Inr (JObj [(''error'', JStr ''API credentials not configured''),
                       (''result'', JBool False)]), w)"
  using assms
  by (simp add: pionex_request_server_def pionex_request_index_def pionex_request_positions_def)

theorem credentials_missing_short_circuit_witness:
  "(PIONEX_API_KEY unconfigured = [] \<or> PIONEX_API_SECRET unconfigured = [])
   \<and> pionex_request_server example_hmac (\<lambda>j. []) example_requests unconfigured ''GET''
        ''/api/v1/account/balances'' None None example_world =
       (JObj [(''error'', JStr ''API credentials not configured'')], example_world)
   \<and> pionex_request_index example_hmac example_urlopen unconfigured ''GET''
        ''/api/v1/account/balances'' None example_world =
       (Inr (JObj [(''error'', JStr ''API credentials not configured''),
                   (''result'', JBool False)]), example_world)"
proof -
  have u: "PIONEX_API_KEY unconfigured = [] \<or> PIONEX_API_SECRET unconfigured = []"
    by (simp add: unconfigured_def)
  from credentials_missing_short_circuit
         [OF u, where H = example_hmac and dumps = "\<lambda>j. []" and up_requests = example_requests
            and up_urlopen = example_urlopen and verb = "''GET''"
            and endpoint = "''/api/v1/account/balances''" and params = None and body = None
            and w = example_world]
       u
  show ?thesis
    by simp
qed

theorem server_config_error_lacks_result:
  "\<not> is_error_envelope
       (fst (pionex_request_server example_hmac (\<lambda>j. []) example_requests unconfigured ''GET''
               ''/api/v1/account/balances'' None None example_world))"
  by (simp add: pionex_request_server_def unconfigured_def is_error_envelope_def)

section \<open>Health check\<close>

text \<open>
  C6. \<open>GET /api/health\<close> answers 200 with \<open>configured\<close> true exactly when both
  credentials are non-empty, in \<open>server.py\<close> and in \<open>api/index.py\<close>, and leaves the world
  unchanged: no upstream request is issued.
\<close>

theorem health_reports_configuration:
  "health_check cfg w =
     (\<lparr>resp_code = 200,
       resp_json = JObj [(''status'', JStr ''ok''),
                         (''configured'',
                          JBool (PIONEX_API_KEY cfg \<noteq> [] \<and> PIONEX_API_SECRET cfg \<noteq> []))]\<rparr>, w)
   \<and> (request_method request \<noteq> Some ''OPTIONS'' \<and> request_path request = Some ''/api/health'' \<longrightarrow>
        handler H up_urlopen cfg request w =
          (Inr \<lparr>statusCode = 200, result_headers = cors_headers,
                result_body = Body_Dumps
                  (JObj [(''status'', JStr ''ok''),
                         (''configured'',
                          JBool (PIONEX_API_KEY cfg \<noteq> [] \<and> PIONEX_API_SECRET cfg \<noteq> [])),
                         (''result'', JBool True)])\<rparr>, w))"
proof (intro conjI impI)
  show "health_check cfg w =
     (\<lparr>resp_code = 200,
       resp_json = JObj [(''status'', JStr ''ok''),
                         (''configured'',
                          JBool (PIONEX_API_KEY cfg \<noteq> [] \<and> PIONEX_API_SECRET cfg \<noteq> []))]\<rparr>, w)"
    by (simp add: health_check_def str_and_def)
next
  assume a: "request_method request \<noteq> Some ''OPTIONS'' \<and> request_path request = Some ''/api/health''"
  then have nm: "(case request_method request of None \<Rightarrow> ''GET'' | Some m \<Rightarrow> m) \<noteq> ''OPTIONS''"
    by (cases "request_method request") simp_all
  from a have p: "request_path request = Some ''/api/health''" by (rule conjunct2)
  show "handler H up_urlopen cfg request w =
          (Inr \<lparr>statusCode = 200, result_headers = cors_headers,
                result_body = Body_Dumps
                  (JObj [(''status'', JStr ''ok''),
                         (''configured'',
                          JBool (PIONEX_API_KEY cfg \<noteq> [] \<and> PIONEX_API_SECRET cfg \<noteq> [])),
                         (''result'', JBool True)])\<rparr>, w)"
    using nm p by (simp add: handler_def Let_def str_and_def)
qed

theorem health_reports_configuration_witness:
  "health_check unconfigured example_world =
     (\<lparr>resp_code = 200,
       resp_json = JObj [(''status'', JStr ''ok''), (''configured'', JBool False)]\<rparr>,
      example_world)
   \<and> handler example_hmac example_urlopen example_config health_request example_world =
     (Inr \<lparr>statusCode = 200, result_headers = cors_headers,
           result_body = Body_Dumps
             (JObj [(''status'', JStr ''ok''), (''configured'', JBool True),
                    (''result'', JBool True)])\<rparr>, example_world)"
proof -
  have h: "request_method health_request \<noteq> Some ''OPTIONS''
           \<and> request_path health_request = Some ''/api/health''"
    by (simp add: health_request_def)
  have a: "health_check unconfigured example_world =
     (\<lparr>resp_code = 200,
       resp_json = JObj [(''status'', JStr ''ok''), (''configured'', JBool False)]\<rparr>,
      example_world)"
    using health_reports_configuration
            [where cfg = unconfigured and w = example_world, THEN conjunct1]
    by (simp add: unconfigured_def)
  have b: "handler example_hmac example_urlopen example_config health_request example_world =
     (Inr \<lparr>statusCode = 200, result_headers = cors_headers,
           result_body = Body_Dumps
             (JObj [(''status'', JStr ''ok''), (''configured'', JBool True),
                    (''result'', JBool True)])\<rparr>, example_world)"
    using health_reports_configuration
            [where cfg = example_config and w = example_world and request = health_request
               and H = example_hmac and up_urlopen = example_urlopen,
             THEN conjunct2, THEN mp, OF h]
    by (simp add: example_config_def)
  from a b show ?thesis by simp
qed

section \<open>Manual bot store: dictionary operations\<close>

lemma map_of_dict_setitem: "map_of (dict_setitem k v d) = (map_of d)(k \<mapsto> v)"
  by (induction d) (auto simp: fun_eq_iff)

lemma keys_dict_setitem:
  "map fst (dict_setitem k v d) = (if k \<in> set (map fst d) then map fst d else map fst d @ [k])"
  by (induction d) force+

lemma distinct_dict_setitem:
  "distinct (map fst d) \<Longrightarrow> distinct (map fst (dict_setitem k v d))"
  by (simp add: keys_dict_setitem)

lemma set_dict_setitem:
  "set (dict_setitem k v d) \<subseteq> insert (k, v) (set d)"
  by (induction d) (auto split: if_splits)

lemma filter_key_dict_setitem:
  "distinct (map fst d) \<Longrightarrow> filter (\<lambda>kv. fst kv = k) (dict_setitem k v d) = [(k, v)]"
proof (induction d)
  case Nil
  then show ?case by simp
next
  case (Cons a d)
  show ?case
  proof (cases "fst a = k")
    case True
    with Cons.prems(1) have "\<forall>kv \<in> set d. fst kv \<noteq> k" by (auto simp: image_iff)
    then have "filter (\<lambda>kv. fst kv = k) d = []" by (simp add: filter_empty_conv)
    with True show ?thesis by (cases a) simp
  next
    case False
    with Cons show ?thesis by (cases a) simp
  qed
qed

lemma other_keys_dict_setitem:
  "filter (\<lambda>kv. fst kv \<noteq> k) (dict_setitem k v d) = filter (\<lambda>kv. fst kv \<noteq> k) d"
  by (induction d) auto


lemma distinct_dict_delitem:
  "distinct (map fst d) \<Longrightarrow> distinct (map fst (dict_delitem k d))"
  by (simp add: dict_delitem_def distinct_map_filter)



lemma update_bot_no_name:
  assumes "\<not> truthy (dict_get kvs ''name'' JNull)"
  shows "update_bot (JObj kvs) w =
           (Inr \<lparr>resp_code = 400, resp_json = JObj [(''error'', JStr ''Bot name required'')]\<rparr>, w)"
  using assms by (simp add: update_bot_def Let_def)

lemma update_bot_upsert:
  assumes "truthy (dict_get kvs ''name'' JNull)"
    and "hashable (dict_get kvs ''name'' JNull) = Some k"
  shows "update_bot (JObj kvs) w =
           (Inr \<lparr>resp_code = 200,
                 resp_json = JObj [(''result'', JBool True),
                                   (''data'', bot_entry_spec kvs (dict_get kvs ''name'' JNull)
                                                (clock w (ticks w)))]\<rparr>,
            w\<lparr>ticks := Suc (ticks w),
              MANUAL_BOT_DATA :=
                dict_setitem k (bot_entry_spec kvs (dict_get kvs ''name'' JNull) (clock w (ticks w)))
                  (MANUAL_BOT_DATA w)\<rparr>)"
  using assms
  by (simp add: update_bot_def Let_def time_ms_def map_of_dict_setitem bot_entry_spec_def
      bot_defaults_def dict_get_def)

lemma update_bot_unhashable:
  assumes "truthy (dict_get kvs ''name'' JNull)"
    and "hashable (dict_get kvs ''name'' JNull) = None"
  shows "update_bot (JObj kvs) w = (Inl TypeError, w\<lparr>ticks := Suc (ticks w)\<rparr>)"
  using assms by (simp add: update_bot_def Let_def time_ms_def)

lemma update_bot_not_object:
  assumes "\<forall>kvs. data \<noteq> JObj kvs"
  shows "update_bot data w = (Inl AttributeError, w)"
  using assms by (cases data) (simp_all add: update_bot_def)

lemma well_formed_bot_entry_spec:
  assumes "hashable name = Some k"
  shows "well_formed_entry k (bot_entry_spec kvs name t)"
  using assms
  by (simp add: well_formed_entry_def bot_entry_spec_def bot_defaults_def bot_field_names_def)

lemma store_inv_setitem:
  assumes "store_inv store" and "well_formed_entry k entry"
  shows "store_inv (dict_setitem k entry store)"
proof -
  have "\<forall>kv \<in> set (dict_setitem k entry store). well_formed_entry (fst kv) (snd kv)"
    using assms set_dict_setitem[of k entry store]
    by (auto simp: store_inv_def list_all_iff)
  then show ?thesis
    using assms(1) by (simp add: store_inv_def list_all_iff distinct_dict_setitem)
qed

lemma store_inv_delitem:
  assumes "store_inv store"
  shows "store_inv (dict_delitem k store)"
  using assms distinct_dict_delitem[of store k]
  by (simp add: store_inv_def list_all_iff) (simp add: dict_delitem_def)

lemma update_bot_store:
  "MANUAL_BOT_DATA (snd (update_bot data w)) = MANUAL_BOT_DATA w
   \<or> (\<exists>k entry. well_formed_entry k entry
         \<and> MANUAL_BOT_DATA (snd (update_bot data w)) = dict_setitem k entry (MANUAL_BOT_DATA w))"
proof (cases data)
  case (JObj kvs)
  show ?thesis
  proof (cases "truthy (dict_get kvs ''name'' JNull)")
    case False
    with JObj show ?thesis by (simp add: update_bot_no_name)
  next
    case True
    show ?thesis
    proof (cases "hashable (dict_get kvs ''name'' JNull)")
      case None
      with True JObj show ?thesis by (simp add: update_bot_unhashable)
    next
      case (Some k)
      have "well_formed_entry k (bot_entry_spec kvs (dict_get kvs ''name'' JNull) (clock w (ticks w)))"
        using Some by (rule well_formed_bot_entry_spec)
      then show ?thesis
        unfolding JObj update_bot_upsert[OF True Some] by (intro disjI2 exI conjI) simp_all
    qed
  qed
qed (simp_all add: update_bot_def)

lemma store_inv_update_bot:
  assumes "store_inv (MANUAL_BOT_DATA w)"
  shows "store_inv (MANUAL_BOT_DATA (snd (update_bot data w)))"
  using update_bot_store[of data w] assms store_inv_setitem by auto

lemma store_inv_delete_bot:
  assumes "store_inv (MANUAL_BOT_DATA w)"
  shows "store_inv (MANUAL_BOT_DATA (snd (delete_bot bot_name w)))"
  using assms by (simp add: delete_bot_def store_inv_delitem split: option.splits)

lemma store_inv_step:
  assumes "store_inv (MANUAL_BOT_DATA w)"
  shows "store_inv (MANUAL_BOT_DATA (bot_step op w))"
  using assms
  by (cases op) (simp_all add: get_bots_def store_inv_update_bot store_inv_delete_bot)

lemma store_inv_run:
  assumes "store_inv (MANUAL_BOT_DATA w)"
  shows "store_inv (MANUAL_BOT_DATA (bot_run ops w))"
  using assms by (induction ops arbitrary: w) (simp_all add: store_inv_step)

lemma hashable_KStr: "hashable n = Some (KStr s) \<longleftrightarrow> n = JStr s"
  by (cases n) simp_all


lemma store_inv_entry:
  assumes "store_inv store" and "(k, entry) \<in> set store"
  shows "well_formed_entry k entry"
  using assms by (auto simp: store_inv_def list_all_iff)


lemma dict_values_setitem:
  "v \<in> set (dict_values (dict_setitem k v d))"
  by (induction d) (force simp: dict_values_def)+

lemma dict_values_member:
  "map_of d k = Some v \<Longrightarrow> v \<in> set (dict_values d)"
  by (auto simp: dict_values_def dest!: map_of_SomeD intro: rev_image_eqI)

section \<open>Manual bot store: posting a record\<close>

text \<open>
  C7. \<open>POST /api/bots\<close> with an object whose \<open>name\<close> is missing, empty or otherwise
  falsy answers 400 and leaves the state unchanged. With a name that is truthy and
  hashable (every non-empty string is) it answers 200 and stores under that name the
  record made of the posted name, the posted fields, the defaults (pair \<open>""\<close>, leverage
  1, investment, profit, profitPercent, lastPrice and markPrice 0, liqPrice \<open>null\<close>) for
  omitted fields, and \<open>updatedAt\<close> set to the clock reading; a following
  \<open>GET /api/bots\<close> lists that record.
\<close>

theorem update_bot_upserts_with_defaults:
  "(map_of kvs ''name'' = None \<or> map_of kvs ''name'' = Some (JStr [])
      \<or> \<not> truthy (dict_get kvs ''name'' JNull) \<longrightarrow>
      update_bot (JObj kvs) w =
        (Inr \<lparr>resp_code = 400, resp_json = JObj [(''error'', JStr ''Bot name required'')]\<rparr>, w))
   \<and> (truthy (dict_get kvs ''name'' JNull) \<and> hashable (dict_get kvs ''name'' JNull) = Some k \<longrightarrow>
        (let entry = bot_entry_spec kvs (dict_get kvs ''name'' JNull) (clock w (ticks w));
             w' = snd (update_bot (JObj kvs) w)
         in fst (update_bot (JObj kvs) w) =
              Inr \<lparr>resp_code = 200,
                   resp_json = JObj [(''result'', JBool True), (''data'', entry)]\<rparr>
            \<and> MANUAL_BOT_DATA w' = dict_setitem k entry (MANUAL_BOT_DATA w)
            \<and> map_of (MANUAL_BOT_DATA w') k = Some entry
            \<and> fst (get_bots w') =
                \<lparr>resp_code = 200,
                 resp_json = JObj [(''result'', JBool True),
                                   (''data'', JObj [(''bots'',
                                      JArr (dict_values (MANUAL_BOT_DATA w')))])]\<rparr>
            \<and> entry \<in> set (dict_values (MANUAL_BOT_DATA w'))))"
proof (intro conjI impI)
  assume a: "map_of kvs ''name'' = None \<or> map_of kvs ''name'' = Some (JStr [])
      \<or> \<not> truthy (dict_get kvs ''name'' JNull)"
  have "\<not> truthy (dict_get kvs ''name'' JNull)"
    using a by (elim disjE) (simp_all add: dict_get_def)
  then show "update_bot (JObj kvs) w =
        (Inr \<lparr>resp_code = 400, resp_json = JObj [(''error'', JStr ''Bot name required'')]\<rparr>, w)"
    by (rule update_bot_no_name)
next
  assume a: "truthy (dict_get kvs ''name'' JNull) \<and> hashable (dict_get kvs ''name'' JNull) = Some k"
  note u = update_bot_upsert[OF a[THEN conjunct1] a[THEN conjunct2], of w]
  show "let entry = bot_entry_spec kvs (dict_get kvs ''name'' JNull) (clock w (ticks w));
             w' = snd (update_bot (JObj kvs) w)
         in fst (update_bot (JObj kvs) w) =
              Inr \<lparr>resp_code = 200,
                   resp_json = JObj [(''result'', JBool True), (''data'', entry)]\<rparr>
            \<and> MANUAL_BOT_DATA w' = dict_setitem k entry (MANUAL_BOT_DATA w)
            \<and> map_of (MANUAL_BOT_DATA w') k = Some entry
            \<and> fst (get_bots w') =
                \<lparr>resp_code = 200,
                 resp_json = JObj [(''result'', JBool True),
                                   (''data'', JObj [(''bots'',
                                      JArr (dict_values (MANUAL_BOT_DATA w')))])]\<rparr>
            \<and> entry \<in> set (dict_values (MANUAL_BOT_DATA w'))"
    unfolding u Let_def
    by (simp add: map_of_dict_setitem get_bots_def dict_values_setitem)
qed


lemma example_bot_name:
  "dict_get example_bot ''name'' JNull = JStr ''bot1''"
  "dict_get example_bot_again ''name'' JNull = JStr ''bot1''"
  by (simp_all add: example_bot_def example_bot_again_def dict_get_def)

theorem update_bot_upserts_with_defaults_witness:
  "update_bot (JObj [(''pair'', JStr ''BTCUSDT'')]) example_server =
     (Inr \<lparr>resp_code = 400, resp_json = JObj [(''error'', JStr ''Bot name required'')]\<rparr>,
      example_server)
   \<and> fst (update_bot (JObj example_bot) example_server) =
       Inr \<lparr>resp_code = 200,
            resp_json = JObj [(''result'', JBool True),
              (''data'', JObj [(''name'', JStr ''bot1''), (''pair'', JStr ''BTCUSDT''),
                 (''leverage'', JNum 5), (''investment'', JNum 0), (''profit'', JNum 0),
                 (''profitPercent'', JNum 0), (''lastPrice'', JNum 0), (''markPrice'', JNum 0),
                 (''liqPrice'', JNull), (''updatedAt'', JNum 1700000000123)])]\<rparr>
   \<and> fst (get_bots (snd (update_bot (JObj example_bot) example_server))) =
       \<lparr>resp_code = 200,
        resp_json = JObj [(''result'', JBool True),
          (''data'', JObj [(''bots'', JArr
             [JObj [(''name'', JStr ''bot1''), (''pair'', JStr ''BTCUSDT''),
                 (''leverage'', JNum 5), (''investment'', JNum 0), (''profit'', JNum 0),
                 (''profitPercent'', JNum 0), (''lastPrice'', JNum 0), (''markPrice'', JNum 0),
                 (''liqPrice'', JNull), (''updatedAt'', JNum 1700000000123)]])])]\<rparr>"
proof -
  have e: "bot_entry_spec example_bot (JStr ''bot1'') (clock example_server (ticks example_server)) =
           JObj [(''name'', JStr ''bot1''), (''pair'', JStr ''BTCUSDT''),
                 (''leverage'', JNum 5), (''investment'', JNum 0), (''profit'', JNum 0),
                 (''profitPercent'', JNum 0), (''lastPrice'', JNum 0), (''markPrice'', JNum 0),
                 (''liqPrice'', JNull), (''updatedAt'', JNum 1700000000123)]"
    by (simp add: bot_entry_spec_def bot_defaults_def example_bot_def example_server_def)
  have s: "MANUAL_BOT_DATA example_server = []"
    by (simp add: example_server_def)
  have a: "update_bot (JObj [(''pair'', JStr ''BTCUSDT'')]) example_server =
     (Inr \<lparr>resp_code = 400, resp_json = JObj [(''error'', JStr ''Bot name required'')]\<rparr>,
      example_server)"
    by (rule update_bot_upserts_with_defaults
               [where kvs = "[(''pair'', JStr ''BTCUSDT'')]" and w = example_server,
                THEN conjunct1, THEN mp]) simp
  have h: "truthy (dict_get example_bot ''name'' JNull)
           \<and> hashable (dict_get example_bot ''name'' JNull) = Some (KStr ''bot1'')"
    by (simp add: example_bot_name)
  note b = update_bot_upserts_with_defaults
             [where kvs = example_bot and w = example_server and k = "KStr ''bot1''",
              THEN conjunct2, THEN mp, OF h, unfolded Let_def example_bot_name e s]
  from a b show ?thesis
    by (simp add: dict_values_def)
qed

section \<open>Manual bot store: posting twice\<close>

lemma entry_field_updatedAt:
  "entry_field (dict_setitem k (bot_entry_spec kvs name t) d) k ''updatedAt'' = Some (JNum t)"
  by (simp add: entry_field_def map_of_dict_setitem bot_entry_spec_def bot_defaults_def)

lemma length_dict_setitem_present:
  "map_of d k \<noteq> None \<Longrightarrow> length (dict_setitem k v d) = length d"
  by (induction d) (auto split: if_splits)

lemma two_posts:
  assumes d: "distinct (map fst (MANUAL_BOT_DATA w))"
    and n1: "truthy (dict_get kvs1 ''name'' JNull)" "hashable (dict_get kvs1 ''name'' JNull) = Some k"
    and n2: "truthy (dict_get kvs2 ''name'' JNull)" "hashable (dict_get kvs2 ''name'' JNull) = Some k"
  shows "MANUAL_BOT_DATA (snd (update_bot (JObj kvs1) w)) =
           dict_setitem k (bot_entry_spec kvs1 (dict_get kvs1 ''name'' JNull) (clock w (ticks w)))
             (MANUAL_BOT_DATA w)"
    and "MANUAL_BOT_DATA (snd (update_bot (JObj kvs2) (snd (update_bot (JObj kvs1) w)))) =
           dict_setitem k
             (bot_entry_spec kvs2 (dict_get kvs2 ''name'' JNull) (clock w (Suc (ticks w))))
             (dict_setitem k
                (bot_entry_spec kvs1 (dict_get kvs1 ''name'' JNull) (clock w (ticks w)))
                (MANUAL_BOT_DATA w))"
  by (simp_all add: update_bot_upsert[OF n1] update_bot_upsert[OF n2])

text \<open>
  C8 (as the code has it). After two successive posts under the same name the store has
  exactly one entry for that name, holding the record of the second post; the other
  entries and the size of the store are those after the first post. The \<open>updatedAt\<close> of
  each post is the clock reading taken by that post, so it has increased strictly exactly
  when the millisecond clock has advanced between the two readings.
\<close>

theorem repeated_post_overwrites:
  assumes "distinct (map fst (MANUAL_BOT_DATA w))"
    and "truthy (dict_get kvs1 ''name'' JNull)"
    and "hashable (dict_get kvs1 ''name'' JNull) = Some k"
    and "truthy (dict_get kvs2 ''name'' JNull)"
    and "hashable (dict_get kvs2 ''name'' JNull) = Some k"
  shows "let w1 = snd (update_bot (JObj kvs1) w);
             w2 = snd (update_bot (JObj kvs2) w1)
         in filter (\<lambda>kv. fst kv = k) (MANUAL_BOT_DATA w2) =
              [(k, bot_entry_spec kvs2 (dict_get kvs2 ''name'' JNull) (clock w (Suc (ticks w))))]
            \<and> length (MANUAL_BOT_DATA w2) = length (MANUAL_BOT_DATA w1)
            \<and> filter (\<lambda>kv. fst kv \<noteq> k) (MANUAL_BOT_DATA w2) =
                filter (\<lambda>kv. fst kv \<noteq> k) (MANUAL_BOT_DATA w)
            \<and> entry_field (MANUAL_BOT_DATA w1) k ''updatedAt'' = Some (JNum (clock w (ticks w)))
            \<and> entry_field (MANUAL_BOT_DATA w2) k ''updatedAt'' =
                Some (JNum (clock w (Suc (ticks w))))
            \<and> updatedAt_increased (MANUAL_BOT_DATA w1) (MANUAL_BOT_DATA w2) k =
                (clock w (ticks w) < clock w (Suc (ticks w)))"
proof -
  note p = two_posts[OF assms]
  have d1: "distinct (map fst (MANUAL_BOT_DATA (snd (update_bot (JObj kvs1) w))))"
    unfolding p(1) using assms(1) by (rule distinct_dict_setitem)
  show ?thesis
    unfolding Let_def p
    by (simp add: filter_key_dict_setitem[OF d1[unfolded p(1)]] other_keys_dict_setitem
        entry_field_updatedAt updatedAt_increased_def length_dict_setitem_present
        map_of_dict_setitem)
qed

lemma example_bot_hash:
  "truthy (dict_get example_bot ''name'' JNull)"
  "hashable (dict_get example_bot ''name'' JNull) = Some (KStr ''bot1'')"
  "truthy (dict_get example_bot_again ''name'' JNull)"
  "hashable (dict_get example_bot_again ''name'' JNull) = Some (KStr ''bot1'')"
  by (simp_all add: example_bot_name)

theorem repeated_post_overwrites_witness:
  "MANUAL_BOT_DATA
     (snd (update_bot (JObj example_bot_again)
        (snd (update_bot (JObj example_bot) example_server)))) =
     [(KStr ''bot1'',
       JObj [(''name'', JStr ''bot1''), (''pair'', JStr ''ETHUSDT''),
             (''leverage'', JNum 1), (''investment'', JNum 0), (''profit'', JNum 0),
             (''profitPercent'', JNum 0), (''lastPrice'', JNum 0), (''markPrice'', JNum 0),
             (''liqPrice'', JNull), (''updatedAt'', JNum 1700000000128)])]
   \<and> updatedAt_increased
        (MANUAL_BOT_DATA (snd (update_bot (JObj example_bot) example_server)))
        (MANUAL_BOT_DATA
           (snd (update_bot (JObj example_bot_again)
              (snd (update_bot (JObj example_bot) example_server)))))
        (KStr ''bot1'')"
proof -
  have d: "distinct (map fst (MANUAL_BOT_DATA example_server))"
    by (simp add: example_server_def)
  have e: "bot_entry_spec example_bot_again (JStr ''bot1'')
             (clock example_server (Suc (ticks example_server))) =
           JObj [(''name'', JStr ''bot1''), (''pair'', JStr ''ETHUSDT''),
             (''leverage'', JNum 1), (''investment'', JNum 0), (''profit'', JNum 0),
             (''profitPercent'', JNum 0), (''lastPrice'', JNum 0), (''markPrice'', JNum 0),
             (''liqPrice'', JNull), (''updatedAt'', JNum 1700000000128)]"
    by (simp add: bot_entry_spec_def bot_defaults_def example_bot_again_def example_server_def)
  have c: "clock example_server (ticks example_server) <
           clock example_server (Suc (ticks example_server))"
    by (simp add: example_server_def)
  have s: "MANUAL_BOT_DATA example_server = []"
    by (simp add: example_server_def)
  note t = repeated_post_overwrites[OF d example_bot_hash, unfolded Let_def example_bot_name e]
  have l: "length (MANUAL_BOT_DATA
     (snd (update_bot (JObj example_bot_again)
        (snd (update_bot (JObj example_bot) example_server))))) = 1"
    using t[THEN conjunct2, THEN conjunct1]
    by (simp add: update_bot_upsert[OF example_bot_hash(1,2)] s)
  have f: "filter (\<lambda>kv. fst kv = KStr ''bot1'') (MANUAL_BOT_DATA
     (snd (update_bot (JObj example_bot_again)
        (snd (update_bot (JObj example_bot) example_server))))) =
     [(KStr ''bot1'',
       JObj [(''name'', JStr ''bot1''), (''pair'', JStr ''ETHUSDT''),
             (''leverage'', JNum 1), (''investment'', JNum 0), (''profit'', JNum 0),
             (''profitPercent'', JNum 0), (''lastPrice'', JNum 0), (''markPrice'', JNum 0),
             (''liqPrice'', JNull), (''updatedAt'', JNum 1700000000128)])]"
    using t[THEN conjunct1] by simp
  have "MANUAL_BOT_DATA
     (snd (update_bot (JObj example_bot_again)
        (snd (update_bot (JObj example_bot) example_server)))) =
     [(KStr ''bot1'',
       JObj [(''name'', JStr ''bot1''), (''pair'', JStr ''ETHUSDT''),
             (''leverage'', JNum 1), (''investment'', JNum 0), (''profit'', JNum 0),
             (''profitPercent'', JNum 0), (''lastPrice'', JNum 0), (''markPrice'', JNum 0),
             (''liqPrice'', JNull), (''updatedAt'', JNum 1700000000128)])]"
    using l f
    by (cases "MANUAL_BOT_DATA
     (snd (update_bot (JObj example_bot_again)
        (snd (update_bot (JObj example_bot) example_server))))") (simp_all split: if_splits)
  moreover have "updatedAt_increased
        (MANUAL_BOT_DATA (snd (update_bot (JObj example_bot) example_server)))
        (MANUAL_BOT_DATA
           (snd (update_bot (JObj example_bot_again)
              (snd (update_bot (JObj example_bot) example_server)))))
        (KStr ''bot1'')"
    using t[THEN conjunct2, THEN conjunct2, THEN conjunct2, THEN conjunct2, THEN conjunct2] c
    by simp
  ultimately show ?thesis by simp
qed

theorem same_millisecond_posts_keep_updatedAt:
  "\<not> updatedAt_increased
        (MANUAL_BOT_DATA (snd (update_bot (JObj example_bot) same_millisecond_server)))
        (MANUAL_BOT_DATA
           (snd (update_bot (JObj example_bot_again)
              (snd (update_bot (JObj example_bot) same_millisecond_server)))))
        (KStr ''bot1'')"
proof -
  have d: "distinct (map fst (MANUAL_BOT_DATA same_millisecond_server))"
    by (simp add: same_millisecond_server_def)
  note p = two_posts[OF d example_bot_hash]
  have a: "entry_field
             (MANUAL_BOT_DATA (snd (update_bot (JObj example_bot) same_millisecond_server)))
             (KStr ''bot1'') ''updatedAt'' =
           Some (JNum (clock same_millisecond_server (ticks same_millisecond_server)))"
    unfolding p(1) by (rule entry_field_updatedAt)
  have b: "entry_field
             (MANUAL_BOT_DATA
                (snd (update_bot (JObj example_bot_again)
                   (snd (update_bot (JObj example_bot) same_millisecond_server)))))
             (KStr ''bot1'') ''updatedAt'' =
           Some (JNum (clock same_millisecond_server (Suc (ticks same_millisecond_server))))"
    unfolding p(2) by (rule entry_field_updatedAt)
  show ?thesis
    unfolding updatedAt_increased_def a b
    by (simp add: same_millisecond_server_def)
qed

section \<open>Manual bot store: deleting a record\<close>














section \<open>Manual bot store: the invariant\<close>

lemma length_bot_field_names: "length bot_field_names = 10"
  by (simp add: bot_field_names_def)

lemma well_formed_entry_JObj:
  "well_formed_entry k (JObj kvs) \<longleftrightarrow>
     map fst kvs = bot_field_names
     \<and> (\<exists>nm. map_of kvs ''name'' = Some nm \<and> hashable nm = Some k)"
  by (simp add: well_formed_entry_def split: option.splits)

lemma well_formed_entry_fields:
  assumes "well_formed_entry k (JObj kvs)"
  shows "map fst kvs = bot_field_names" and "length kvs = 10"
    and "f \<notin> set bot_field_names \<Longrightarrow> map_of kvs f = None"
proof -
  show m: "map fst kvs = bot_field_names"
    using assms by (simp add: well_formed_entry_JObj)
  have "length (map fst kvs) = 10"
    unfolding m by (rule length_bot_field_names)
  then show "length kvs = 10" by simp
  assume "f \<notin> set bot_field_names"
  then have "f \<notin> fst ` set kvs"
    unfolding m[symmetric] by simp
  then show "map_of kvs f = None"
    by (simp add: map_of_eq_None_iff)
qed

lemma well_formed_entry_name:
  assumes "well_formed_entry (KStr s) (JObj kvs)"
  shows "map_of kvs ''name'' = Some (JStr s)"
proof -
  from assms obtain nm where "map_of kvs ''name'' = Some nm" and "hashable nm = Some (KStr s)"
    unfolding well_formed_entry_JObj by blast
  then show ?thesis by (simp add: hashable_KStr)
qed

text \<open>
  C10. The empty store satisfies the invariant, and \<open>GET /api/bots\<close>, \<open>POST /api/bots\<close>
  with any document, \<open>DELETE /api/bots/{name}\<close> and every run of them preserve it. Under
  the invariant each stored record is an object with exactly the ten fields, its
  \<open>name\<close> field is its key, and it has no field outside the ten: extra fields of a
  posted payload are not stored.
\<close>

theorem manual_bot_store_invariant:
  "store_inv []
   \<and> (store_inv (MANUAL_BOT_DATA w) \<longrightarrow>
        store_inv (MANUAL_BOT_DATA (snd (get_bots w)))
        \<and> store_inv (MANUAL_BOT_DATA (snd (update_bot data w)))
        \<and> store_inv (MANUAL_BOT_DATA (snd (delete_bot n w)))
        \<and> store_inv (MANUAL_BOT_DATA (bot_run ops w)))
   \<and> (store_inv store \<and> map_of store k = Some entry \<longrightarrow> well_formed_entry k entry)
   \<and> (well_formed_entry k (JObj kvs) \<longrightarrow>
        map fst kvs = bot_field_names \<and> length kvs = 10
        \<and> (\<exists>nm. map_of kvs ''name'' = Some nm \<and> hashable nm = Some k)
        \<and> (f \<notin> set bot_field_names \<longrightarrow> map_of kvs f = None))
   \<and> (well_formed_entry (KStr s) (JObj kvs) \<longrightarrow> map_of kvs ''name'' = Some (JStr s))"
proof (intro conjI impI)
  show "store_inv []" by (simp add: store_inv_def)
next
  assume i: "store_inv (MANUAL_BOT_DATA w)"
  then show "store_inv (MANUAL_BOT_DATA (snd (get_bots w)))" by (simp add: get_bots_def)
  from i show "store_inv (MANUAL_BOT_DATA (snd (update_bot data w)))" by (rule store_inv_update_bot)
  from i show "store_inv (MANUAL_BOT_DATA (snd (delete_bot n w)))" by (rule store_inv_delete_bot)
  from i show "store_inv (MANUAL_BOT_DATA (bot_run ops w))" by (rule store_inv_run)
next
  assume a: "store_inv store \<and> map_of store k = Some entry"
  then have "(k, entry) \<in> set store" by (intro map_of_SomeD) simp
  with a[THEN conjunct1] show "well_formed_entry k entry" by (rule store_inv_entry)
next
  assume w: "well_formed_entry k (JObj kvs)"
  then show "map fst kvs = bot_field_names" by (rule well_formed_entry_fields(1))
  from w show "length kvs = 10" by (rule well_formed_entry_fields(2))
  from w show "\<exists>nm. map_of kvs ''name'' = Some nm \<and> hashable nm = Some k"
    by (simp add: well_formed_entry_JObj)
  assume "f \<notin> set bot_field_names"
  with w show "map_of kvs f = None" by (rule well_formed_entry_fields(3))
next
  assume "well_formed_entry (KStr s) (JObj kvs)"
  then show "map_of kvs ''name'' = Some (JStr s)" by (rule well_formed_entry_name)
qed

lemma comment_not_a_field: "''comment'' \<notin> set bot_field_names"
  by (simp add: bot_field_names_def)

theorem manual_bot_store_invariant_witness:
  "store_inv (MANUAL_BOT_DATA example_server)
   \<and> store_inv (MANUAL_BOT_DATA
        (bot_run [Op_Post (JObj example_bot_again), Op_Get, Op_Delete ''ghost''] example_server))
   \<and> well_formed_entry (KStr ''bot1'')
        (bot_entry_spec example_bot_again (JStr ''bot1'') 1700000000123)
   \<and> entry_field (MANUAL_BOT_DATA (snd (update_bot (JObj example_bot_again) example_server)))
        (KStr ''bot1'') ''comment'' = None
   \<and> entry_field (MANUAL_BOT_DATA (snd (update_bot (JObj example_bot_again) example_server)))
        (KStr ''bot1'') ''name'' = Some (JStr ''bot1'')"
proof -
  have i: "store_inv (MANUAL_BOT_DATA example_server)"
    by (simp add: example_server_def store_inv_def)
  have st: "MANUAL_BOT_DATA (snd (update_bot (JObj example_bot_again) example_server)) =
            [(KStr ''bot1'', bot_entry_spec example_bot_again (JStr ''bot1'') 1700000000123)]"
    unfolding update_bot_upsert[OF example_bot_hash(3,4)]
    by (simp add: example_bot_name example_server_def)
  obtain kvs where kvs:
    "bot_entry_spec example_bot_again (JStr ''bot1'') 1700000000123 = JObj kvs"
    by (simp add: bot_entry_spec_def)
  note t = manual_bot_store_invariant
  have r: "store_inv (MANUAL_BOT_DATA
        (bot_run [Op_Post (JObj example_bot_again), Op_Get, Op_Delete ''ghost''] example_server))"
    by (rule t[where w = example_server, THEN conjunct2, THEN conjunct1, THEN mp, OF i,
               THEN conjunct2, THEN conjunct2, THEN conjunct2])
  have p: "store_inv (MANUAL_BOT_DATA (snd (update_bot (JObj example_bot_again) example_server)))"
    by (rule t[where w = example_server, THEN conjunct2, THEN conjunct1, THEN mp, OF i,
               THEN conjunct2, THEN conjunct1])
  have w: "well_formed_entry (KStr ''bot1'') (JObj kvs)"
    using t[where store = "MANUAL_BOT_DATA (snd (update_bot (JObj example_bot_again) example_server))"
              and k = "KStr ''bot1''" and entry = "JObj kvs",
            THEN conjunct2, THEN conjunct2, THEN conjunct1, THEN mp] p
    by (simp add: st kvs)
  have c: "map_of kvs ''comment'' = None"
    by (rule t[where k = "KStr ''bot1''" and kvs = kvs and f = "''comment''",
               THEN conjunct2, THEN conjunct2, THEN conjunct2, THEN conjunct1, THEN mp, OF w,
               THEN conjunct2, THEN conjunct2, THEN conjunct2, THEN mp,
               OF comment_not_a_field])
  have n: "map_of kvs ''name'' = Some (JStr ''bot1'')"
    by (rule t[where s = "''bot1''" and kvs = kvs,
            THEN conjunct2, THEN conjunct2, THEN conjunct2, THEN conjunct2, THEN mp, OF w])
  from i r w c n show ?thesis
    by (simp add: entry_field_def st kvs)
qed

end
